theory Spec2Isabelle
  imports Main "HOL-Library.Sublist"
begin

section \<open>Data model of \<^verbatim>\<open>mig.py\<close>\<close>

text \<open>
  The program talks to a remote service through an \<^verbatim>\<open>atproto\<close> client and to the
  operator through Streamlit widgets. Both are effects; they are modelled by one trace of
  events that every function takes and returns extended. Exceptions are values.

  Python strings are modelled as \<open>string\<close>; only concatenation, prefix test, emptiness and
  replacement of ASCII substrings are used by the program.
\<close>

subsection \<open>Exceptions\<close>

text \<open>
  The handlers of the program distinguish \<^verbatim>\<open>AtProtocolError\<close> from every other
  \<^verbatim>\<open>Exception\<close>; the only thing read from an exception is \<^verbatim>\<open>str(e)\<close>, the string
  each constructor carries.
\<close>

datatype exn = AtProtocolError string | OtherException string

definition apostrophe :: char where
  "apostrophe = CHR 0x27"

definition AttributeError_me :: exn where
  \<comment> \<open>\<^verbatim>\<open>client.me.did\<close> on a client that never logged in: \<^verbatim>\<open>client.me\<close> is \<^verbatim>\<open>None\<close>\<close>
  "AttributeError_me = OtherException
     ([apostrophe] @ ''NoneType'' @ [apostrophe] @ '' object has no attribute '' @
      [apostrophe] @ ''did'' @ [apostrophe])"

definition ZeroDivisionError :: exn where
  "ZeroDivisionError = OtherException ''division by zero''"

subsection \<open>Records of the protocol\<close>

record profile =
  handle :: string
  did :: string

record list_item_view =
  subject :: profile

record response =
  items :: "list_item_view list"
  cursor :: "string option"

record params =
  q_list :: string
  q_limit :: nat
  q_cursor :: "string option"

record list_record =
  name :: string
  purpose :: string
  description :: string
  createdAt :: string

record listitem_record =
  item_subject :: string
  item_list :: string
  item_createdAt :: string

datatype payload = ListRecord list_record | ListitemRecord listitem_record

record create_data =
  repo :: string
  collection :: string
  the_record :: payload

record create_response =
  uri :: string

record client =
  me :: "profile option"

definition AppBskyGraphList :: string where
  "AppBskyGraphList = ''app.bsky.graph.list''"

definition AppBskyGraphListitem :: string where
  "AppBskyGraphListitem = ''app.bsky.graph.listitem''"

subsection \<open>Events and the outside world\<close>

text \<open>
  One event per remote call (with the reply it got), per \<^verbatim>\<open>time.sleep\<close> (in
  milliseconds) and per Streamlit call. The progress fraction \<^verbatim>\<open>(i + 1) / total\<close> is a
  float in the source; the event keeps numerator and denominator.
\<close>

datatype event =
    LoginCall string string "exn + profile"
  | GetListCall params "exn + response option"
  | CreateRecordCall create_data "exn + create_response"
  | Sleep nat
  | StError string
  | StWarning string
  | StSuccess string
  | StInfo string
  | StWrite string
  | StBalloons
  | StatusOpen string
  | StatusUpdate string string bool
  | ProgressOpen nat string
  | ProgressSet nat nat string
  | ProgressEmpty

record datetime =
  year :: nat
  month :: nat
  day :: nat
  hour :: nat
  minute :: nat
  second :: nat
  microsecond :: nat

text \<open>
  The outside world: what the service answers to a call and what the clock shows, each
  as a function of everything that happened before (the trace) and of the request. Any
  deterministic service, with any state of its own, is such a function.

  The class \<^verbatim>\<open>models.AppBskyGraphList.Record\<close> is declared by the \<^verbatim>\<open>atproto\<close> library,
  and its constructor validates the fields it is given (the library bounds the length of
  the name). Which records the constructor rejects, and with which exception, is a
  parameter too: \<open>list_record_raises\<close>.
\<close>

record env =
  login :: "event list \<Rightarrow> string \<Rightarrow> string \<Rightarrow> exn + profile"
  get_list :: "event list \<Rightarrow> params \<Rightarrow> exn + response option"
  create_record :: "event list \<Rightarrow> create_data \<Rightarrow> exn + create_response"
  now_utc :: "event list \<Rightarrow> datetime"
  list_record_raises :: "list_record \<Rightarrow> exn option"

section \<open>Strings and timestamps\<close>

subsection \<open>\<^verbatim>\<open>str(n)\<close> and \<^verbatim>\<open>%0wd\<close>\<close>

definition digit_char :: "nat \<Rightarrow> char" where
  "digit_char d = ''0123456789'' ! (d mod 10)"

fun str_nat :: "nat \<Rightarrow> string" where
  "str_nat n = (if n < 10 then [digit_char n] else str_nat (n div 10) @ [digit_char (n mod 10)])"

declare str_nat.simps [simp del]

definition zero_pad :: "nat \<Rightarrow> nat \<Rightarrow> string" where
  \<comment> \<open>\<^verbatim>\<open>"%0wd" % n\<close>: at least \<open>w\<close> digits\<close>
  "zero_pad w n = replicate (w - length (str_nat n)) (CHR ''0'') @ str_nat n"

subsection \<open>\<^verbatim>\<open>str.replace\<close>\<close>

text \<open>
  Python replaces the non-overlapping occurrences of \<open>old\<close> from left to right; an empty
  \<open>old\<close> matches before every character and at the end.
\<close>

function str_replace :: "string \<Rightarrow> string \<Rightarrow> string \<Rightarrow> string" where
  "str_replace old new [] = (if old = [] then new else [])"
| "str_replace old new (c # cs) =
     (if old = [] then new @ c # str_replace old new cs
      else if prefix old (c # cs) then new @ str_replace old new (drop (length old) (c # cs))
      else c # str_replace old new cs)"
  by pat_completeness auto
termination
  by (relation "measure (\<lambda>(old, new, s). length s)") auto

subsection \<open>\<^verbatim>\<open>datetime.now(timezone.utc).isoformat().replace("+00:00", "Z")\<close>\<close>

text \<open>
  \<^verbatim>\<open>datetime.isoformat()\<close> with the default \<^verbatim>\<open>timespec='auto'\<close> prints
  \<^verbatim>\<open>YYYY-MM-DDTHH:MM:SS\<close>, then \<^verbatim>\<open>.ffffff\<close> if the microsecond field is not 0, then the
  UTC offset, which is \<^verbatim>\<open>+00:00\<close> for \<^verbatim>\<open>timezone.utc\<close>.
\<close>

definition valid_datetime :: "datetime \<Rightarrow> bool" where
  \<comment> \<open>the ranges Python's \<^verbatim>\<open>datetime\<close> enforces on its fields\<close>
  "valid_datetime d \<longleftrightarrow>
     1 \<le> year d \<and> year d \<le> 9999 \<and> 1 \<le> month d \<and> month d \<le> 12 \<and>
     1 \<le> day d \<and> day d \<le> 31 \<and> hour d < 24 \<and> minute d < 60 \<and> second d < 60 \<and>
     microsecond d < 1000000"

definition isoformat :: "datetime \<Rightarrow> string" where
  "isoformat d =
     zero_pad 4 (year d) @ ''-'' @ zero_pad 2 (month d) @ ''-'' @ zero_pad 2 (day d) @ ''T'' @
     zero_pad 2 (hour d) @ '':'' @ zero_pad 2 (minute d) @ '':'' @ zero_pad 2 (second d) @
     (if microsecond d \<noteq> 0 then ''.'' @ zero_pad 6 (microsecond d) else []) @
     ''+00:00''"

definition created_at :: "datetime \<Rightarrow> string" where
  "created_at d = str_replace ''+00:00'' ''Z'' (isoformat d)"

section \<open>Core migration logic\<close>

subsection \<open>\<^verbatim>\<open>get_list_members\<close>\<close>

text \<open>
  The \<^verbatim>\<open>while True\<close> loop. An exception of the page fetch leaves the loop as \<open>Inl\<close>; the
  handlers are in \<open>get_list_members\<close>. \<^verbatim>\<open>not response\<close> holds for \<^verbatim>\<open>None\<close>,
  \<^verbatim>\<open>not response.items\<close> for the empty list, \<^verbatim>\<open>not cursor\<close> for \<^verbatim>\<open>None\<close> and for
  the empty string. The loop has no bound of its own: \<open>None\<close> is a run that never returns.
\<close>

definition truthy :: "'a list option \<Rightarrow> bool" where
  \<comment> \<open>Python's truth value of an optional string or list: \<^verbatim>\<open>None\<close> and the empty one are false\<close>
  "truthy x \<longleftrightarrow> (case x of None \<Rightarrow> False | Some v \<Rightarrow> v \<noteq> [])"

partial_function (option) get_list_members_loop ::
  "env \<Rightarrow> string \<Rightarrow> string option \<Rightarrow> string list \<Rightarrow> event list \<Rightarrow>
   ((exn + string list) \<times> event list) option"
where
  "get_list_members_loop e list_uri cur members tr =
     (let ps = \<lparr>q_list = list_uri, q_limit = 100, q_cursor = cur\<rparr>;
          reply = get_list e tr ps;
          tr1 = tr @ [GetListCall ps reply]
      in case reply of
           Inl ex \<Rightarrow> Some (Inl ex, tr1)
         | Inr None \<Rightarrow> Some (Inr members, tr1)
         | Inr (Some resp) \<Rightarrow>
             (if items resp = [] then Some (Inr members, tr1)
              else
                let members' = members @ map (\<lambda>item. did (subject item)) (items resp);
                    cur' = cursor resp
                in if \<not> truthy cur' then Some (Inr members', tr1)
                   else get_list_members_loop e list_uri cur' members' (tr1 @ [Sleep 100])))"

text \<open>The loop equation is the code equation of the loop.\<close>

declare get_list_members_loop.simps [code]

definition fetch_error_message :: "string \<Rightarrow> exn \<Rightarrow> string" where
  "fetch_error_message list_uri ex =
     (case ex of
        AtProtocolError m \<Rightarrow> ''Error fetching list members from '' @ list_uri @ '': '' @ m
      | OtherException m \<Rightarrow> ''An unexpected error occurred while fetching members: '' @ m)"

definition get_list_members ::
  "env \<Rightarrow> client \<Rightarrow> string \<Rightarrow> event list \<Rightarrow> (string list option \<times> event list) option"
where
  "get_list_members e c list_uri tr =
     (case get_list_members_loop e list_uri None [] tr of
        None \<Rightarrow> None
      | Some (Inr members, tr') \<Rightarrow> Some (Some members, tr')
      | Some (Inl ex, tr') \<Rightarrow> Some (None, tr' @ [StError (fetch_error_message list_uri ex)]))"

subsection \<open>\<^verbatim>\<open>create_new_list\<close>\<close>

text \<open>
  Everything from the construction of the list record to the call is inside the
  \<^verbatim>\<open>try\<close>. The constructor of the list record comes first and may raise; then
  \<^verbatim>\<open>client.me.did\<close> is evaluated and raises on a client that is not logged in; then
  the call is made and may raise. Both handlers report the exception and return
  \<^verbatim>\<open>None\<close>.
\<close>

definition create_error_message :: "exn \<Rightarrow> string" where
  "create_error_message ex =
     (case ex of
        AtProtocolError m \<Rightarrow> ''Error creating new list: '' @ m
      | OtherException m \<Rightarrow> ''An unexpected error occurred while creating the list: '' @ m)"

definition create_new_list ::
  "env \<Rightarrow> client \<Rightarrow> string \<Rightarrow> string \<Rightarrow> string \<Rightarrow> event list \<Rightarrow> string option \<times> event list"
where
  "create_new_list e c name' description' purpose' tr =
     (let purpose'' =
            (if \<not> prefix ''app.bsky.graph.defs#'' purpose'
             then ''app.bsky.graph.defs#'' @ purpose' else purpose');
          list_record = \<lparr>name = name', purpose = purpose'', description = description',
                         createdAt = created_at (now_utc e tr)\<rparr>
      in case list_record_raises e list_record of
           Some ex \<Rightarrow> (None, tr @ [StError (create_error_message ex)])
         | None \<Rightarrow>
             (case me c of
                None \<Rightarrow> (None, tr @ [StError (create_error_message AttributeError_me)])
              | Some prof \<Rightarrow>
                  (let d = \<lparr>repo = did prof, collection = AppBskyGraphList,
                            the_record = ListRecord list_record\<rparr>;
                       reply = create_record e tr d;
                       tr1 = tr @ [CreateRecordCall d reply]
                   in (case reply of
                         Inr resp \<Rightarrow>
                           (Some (uri resp),
                            tr1 @ [StSuccess (''Successfully created new list: '' @ uri resp)])
                       | Inl ex \<Rightarrow> (None, tr1 @ [StError (create_error_message ex)])))))"

subsection \<open>\<^verbatim>\<open>add_members_to_list\<close>\<close>

definition add_warning_message :: "string \<Rightarrow> exn \<Rightarrow> string" where
  "add_warning_message member_did ex =
     (case ex of
        AtProtocolError m \<Rightarrow> ''Failed to add member '' @ member_did @ '': '' @ m
      | OtherException m \<Rightarrow> ''Unexpected error adding member '' @ member_did @ '': '' @ m)"

text \<open>
  The \<^verbatim>\<open>try\<close> statement of the loop body without its \<^verbatim>\<open>finally\<close>: the new counters
  and the trace.
\<close>

definition try_add_member ::
  "env \<Rightarrow> client \<Rightarrow> string \<Rightarrow> string \<Rightarrow> nat \<times> nat \<times> event list \<Rightarrow> nat \<times> nat \<times> event list"
where
  "try_add_member e c list_uri member_did st =
     (case st of (success_count, fail_count, tr) \<Rightarrow>
        let list_item_record = \<lparr>item_subject = member_did, item_list = list_uri,
                                 item_createdAt = created_at (now_utc e tr)\<rparr>
        in (case me c of
              None \<Rightarrow>
                (success_count, fail_count + 1,
                 tr @ [StWarning (add_warning_message member_did AttributeError_me), Sleep 1000])
            | Some prof \<Rightarrow>
                (let d = \<lparr>repo = did prof, collection = AppBskyGraphListitem,
                          the_record = ListitemRecord list_item_record\<rparr>;
                     reply = create_record e tr d;
                     tr1 = tr @ [CreateRecordCall d reply]
                 in (case reply of
                       Inr resp \<Rightarrow> (success_count + 1, fail_count, tr1 @ [Sleep 200])
                     | Inl ex \<Rightarrow>
                         (success_count, fail_count + 1,
                          tr1 @ [StWarning (add_warning_message member_did ex), Sleep 1000])))))"

definition progress_text :: "nat \<Rightarrow> nat \<Rightarrow> nat \<Rightarrow> string" where
  "progress_text i total_n fail_count =
     ''Adding members ('' @ str_nat (i + 1) @ ''/'' @ str_nat total_n @ '')... '' @
     str_nat fail_count @ '' failed.''"

text \<open>
  The \<^verbatim>\<open>for\<close> loop over \<^verbatim>\<open>enumerate(members)\<close>. The \<^verbatim>\<open>finally\<close> block divides by
  \<^verbatim>\<open>total\<close>; an exception raised there is caught by nothing and leaves the function.
\<close>

fun add_members_loop ::
  "env \<Rightarrow> client \<Rightarrow> string \<Rightarrow> nat \<Rightarrow> (nat \<times> string) list \<Rightarrow> nat \<times> nat \<times> event list \<Rightarrow>
   (exn + nat \<times> nat) \<times> event list"
where
  "add_members_loop e c list_uri total_n [] (success_count, fail_count, tr) =
     (Inr (success_count, fail_count), tr)"
| "add_members_loop e c list_uri total_n ((i, member_did) # rest) st =
     (case try_add_member e c list_uri member_did st of
        (success_count, fail_count, tr1) \<Rightarrow>
          if total_n = 0 then (Inl ZeroDivisionError, tr1)
          else add_members_loop e c list_uri total_n rest
                 (success_count, fail_count,
                  tr1 @ [ProgressSet (i + 1) total_n (progress_text i total_n fail_count)]))"

definition add_members_to_list ::
  "env \<Rightarrow> client \<Rightarrow> string \<Rightarrow> string list \<Rightarrow> event list \<Rightarrow> (exn + nat \<times> nat) \<times> event list"
where
  "add_members_to_list e c list_uri members tr =
     (let total_n = length members;
          tr0 = tr @ [ProgressOpen 0 (''Adding members (0/'' @ str_nat total_n @ '')...'')]
      in case add_members_loop e c list_uri total_n (enumerate 0 members) (0, 0, tr0) of
           (Inl ex, tr') \<Rightarrow> (Inl ex, tr')
         | (Inr counts, tr') \<Rightarrow> (Inr counts, tr' @ [ProgressEmpty]))"

section \<open>The handler of the \<^verbatim>\<open>Migrate List\<close> button\<close>

record inputs =
  source_handle :: string
  source_password :: string
  source_list_uri :: string
  dest_handle :: string
  dest_password :: string
  dest_list_name :: string
  dest_list_purpose :: string
  dest_list_desc :: string

record run =
  source_client :: client
  dest_client :: client
  members_to_add :: "string list option"
  new_list_uri :: "string option"
  migration_ok :: bool

datatype outcome = Finished | Uncaught exn

definition login_error_A :: "exn \<Rightarrow> string" where
  "login_error_A ex =
     (case ex of
        AtProtocolError m \<Rightarrow> ''Login failed for Account A: '' @ m
      | OtherException m \<Rightarrow> ''An unexpected error occurred during Account A login: '' @ m)"

definition login_error_B :: "exn \<Rightarrow> string" where
  "login_error_B ex =
     (case ex of
        AtProtocolError m \<Rightarrow> ''Login failed for Account B: '' @ m
      | OtherException m \<Rightarrow> ''An unexpected error occurred during Account B login: '' @ m)"

definition logged_in_text :: "profile \<Rightarrow> string" where
  "logged_in_text p = ''Logged in as '' @ handle p @ '' ('' @ did p @ '')''"

definition step_login_source :: "env \<Rightarrow> inputs \<Rightarrow> run \<times> event list \<Rightarrow> run \<times> event list" where
  "step_login_source e inp st =
     (case st of (r, tr) \<Rightarrow>
        let tr1 = tr @ [StatusOpen ''Logging into Source Account (Account A)...'',
                        StWrite (''Attempting login for '' @ source_handle inp @ ''...'')];
            reply = login e tr1 (source_handle inp) (source_password inp);
            tr2 = tr1 @ [LoginCall (source_handle inp) (source_password inp) reply]
        in (case reply of
              Inr p \<Rightarrow>
                (r\<lparr>source_client := \<lparr>me = Some p\<rparr>\<rparr>,
                 tr2 @ [StWrite (logged_in_text p),
                        StatusUpdate ''Login Successful!'' ''complete'' False])
            | Inl ex \<Rightarrow>
                (r\<lparr>migration_ok := False\<rparr>,
                 tr2 @ [StError (login_error_A ex), StatusUpdate ''Login Failed!'' ''error'' True])))"

definition step_fetch_members ::
  "env \<Rightarrow> inputs \<Rightarrow> run \<times> event list \<Rightarrow> (run \<times> event list) option"
where
  "step_fetch_members e inp st =
     (case st of (r, tr) \<Rightarrow>
        if migration_ok r then
          (case get_list_members e (source_client r) (source_list_uri inp)
                  (tr @ [StatusOpen (''Fetching members from list '' @ source_list_uri inp @ ''...'')]) of
             None \<Rightarrow> None
           | Some (Some members, tr1) \<Rightarrow>
               Some (r\<lparr>members_to_add := Some members\<rparr>,
                     tr1 @ [StWrite (''Found '' @ str_nat (length members) @
                                     '' members in the source list.''),
                            StatusUpdate ''Fetched Members Successfully!'' ''complete'' False])
           | Some (None, tr1) \<Rightarrow>
               Some (r\<lparr>members_to_add := None, migration_ok := False\<rparr>,
                     tr1 @ [StError ''Failed to fetch members. Cannot continue.'',
                            StatusUpdate ''Fetching Members Failed!'' ''error'' True]))
        else Some (r, tr))"

definition step_login_dest :: "env \<Rightarrow> inputs \<Rightarrow> run \<times> event list \<Rightarrow> run \<times> event list" where
  "step_login_dest e inp st =
     (case st of (r, tr) \<Rightarrow>
        if migration_ok r then
          let tr1 = tr @ [StatusOpen ''Logging into Destination Account (Account B)...'',
                          StWrite (''Attempting login for '' @ dest_handle inp @ ''...'')];
              reply = login e tr1 (dest_handle inp) (dest_password inp);
              tr2 = tr1 @ [LoginCall (dest_handle inp) (dest_password inp) reply]
          in (case reply of
                Inr p \<Rightarrow>
                  (r\<lparr>dest_client := \<lparr>me = Some p\<rparr>\<rparr>,
                   tr2 @ [StWrite (logged_in_text p),
                          StatusUpdate ''Login Successful!'' ''complete'' False])
              | Inl ex \<Rightarrow>
                  (r\<lparr>migration_ok := False\<rparr>,
                   tr2 @ [StError (login_error_B ex), StatusUpdate ''Login Failed!'' ''error'' True]))
        else (r, tr))"

definition step_create_list :: "env \<Rightarrow> inputs \<Rightarrow> run \<times> event list \<Rightarrow> run \<times> event list" where
  "step_create_list e inp st =
     (case st of (r, tr) \<Rightarrow>
        if migration_ok r then
          (case create_new_list e (dest_client r) (dest_list_name inp) (dest_list_desc inp)
                  (dest_list_purpose inp)
                  (tr @ [StatusOpen (''Creating new list '' @ [apostrophe] @ dest_list_name inp @
                                     [apostrophe] @ '' on Account B...'')]) of
             (u, tr1) \<Rightarrow>
               if truthy u then
                 (r\<lparr>new_list_uri := u\<rparr>,
                  tr1 @ [StWrite (''New list created with URI: '' @ the u),
                         StatusUpdate ''List Creation Successful!'' ''complete'' False])
               else
                 (r\<lparr>new_list_uri := u, migration_ok := False\<rparr>,
                  tr1 @ [StError ''Failed to create the new list. Cannot continue.'',
                         StatusUpdate ''List Creation Failed!'' ''error'' True]))
        else (r, tr))"

definition step_add_members :: "env \<Rightarrow> run \<times> event list \<Rightarrow> outcome \<times> run \<times> event list" where
  "step_add_members e st =
     (case st of (r, tr) \<Rightarrow>
        if migration_ok r \<and> truthy (members_to_add r) \<and> truthy (new_list_uri r) then
          (case add_members_to_list e (dest_client r) (the (new_list_uri r))
                  (the (members_to_add r))
                  (tr @ [StInfo (''Starting to add '' @
                                 str_nat (length (the (members_to_add r))) @
                                 '' members to the new list. This may take a while...'')]) of
             (Inl ex, tr1) \<Rightarrow> (Uncaught ex, r, tr1)
           | (Inr (success, failed), tr1) \<Rightarrow>
               (Finished, r,
                tr1 @ [StSuccess (''Finished adding members. Successfully added: '' @
                                  str_nat success @ '', Failed: '' @ str_nat failed),
                       StBalloons]))
        else if migration_ok r then
          (Finished, r,
           tr @ [StWarning (''No members found in the source list or new list wasn'' @
                            [apostrophe] @ ''t created. Nothing to add.'')])
        else (Finished, r, tr))"

definition migrate :: "env \<Rightarrow> inputs \<Rightarrow> event list \<Rightarrow> (outcome \<times> event list) option" where
  "migrate e inp tr =
     (if source_handle inp = [] \<or> source_password inp = [] \<or> source_list_uri inp = [] \<or>
         dest_handle inp = [] \<or> dest_password inp = [] \<or> dest_list_name inp = [] \<or>
         dest_list_purpose inp = []
      then Some (Finished, tr @ [StError ''Please fill in all required fields.''])
      else
        let r0 = \<lparr>source_client = \<lparr>me = None\<rparr>, dest_client = \<lparr>me = None\<rparr>,
                   members_to_add = None, new_list_uri = None, migration_ok = True\<rparr>
        in case step_fetch_members e inp (step_login_source e inp (r0, tr)) of
             None \<Rightarrow> None
           | Some st2 \<Rightarrow>
               (case step_add_members e (step_create_list e inp (step_login_dest e inp st2)) of
                  (Uncaught ex, r, tr5) \<Rightarrow> Some (Uncaught ex, tr5)
                | (Finished, r, tr5) \<Rightarrow>
                    if \<not> migration_ok r
                    then Some (Finished, tr5 @ [StError ''Migration process stopped due to errors.''])
                    else Some (Finished, tr5)))"

section \<open>Observations on traces\<close>

text \<open>
  What the statements below read off a trace: the remote calls of each kind with their
  replies, the warnings and the progress updates.
\<close>

fun fetch_of :: "event \<Rightarrow> (params \<times> (exn + response option)) list" where
  "fetch_of (GetListCall q r) = [(q, r)]"
| "fetch_of _ = []"

definition fetch_calls :: "event list \<Rightarrow> (params \<times> (exn + response option)) list" where
  "fetch_calls tr = concat (map fetch_of tr)"

fun sent_record :: "event \<Rightarrow> (create_data \<times> (exn + create_response)) list" where
  "sent_record (CreateRecordCall d r) = [(d, r)]"
| "sent_record _ = []"

definition create_calls :: "event list \<Rightarrow> (create_data \<times> (exn + create_response)) list" where
  "create_calls tr = concat (map sent_record tr)"

definition failed_calls :: "event list \<Rightarrow> (create_data \<times> (exn + create_response)) list" where
  "failed_calls tr = filter (\<lambda>(d, r). isl r) (create_calls tr)"

fun subject_of :: "payload \<Rightarrow> string list" where
  "subject_of (ListitemRecord it) = [item_subject it]"
| "subject_of (ListRecord l) = []"

definition attempted_subjects :: "event list \<Rightarrow> string list" where
  \<comment> \<open>the subjects of the membership records sent, in the order of the calls\<close>
  "attempted_subjects tr = concat (map (\<lambda>(d, r). subject_of (the_record d)) (create_calls tr))"

fun warning_of :: "event \<Rightarrow> string list" where
  "warning_of (StWarning m) = [m]"
| "warning_of _ = []"

definition warnings :: "event list \<Rightarrow> string list" where
  "warnings tr = concat (map warning_of tr)"

fun progress_of :: "event \<Rightarrow> (nat \<times> nat) list" where
  "progress_of (ProgressSet i n t) = [(i, n)]"
| "progress_of _ = []"

definition progress_updates :: "event list \<Rightarrow> (nat \<times> nat) list" where
  "progress_updates tr = concat (map progress_of tr)"

fun purpose_of :: "payload \<Rightarrow> string list" where
  "purpose_of (ListRecord l) = [purpose l]"
| "purpose_of (ListitemRecord it) = []"

definition stored_purposes :: "event list \<Rightarrow> string list" where
  \<comment> \<open>the purposes of the list records sent\<close>
  "stored_purposes tr = concat (map (\<lambda>(d, r). purpose_of (the_record d)) (create_calls tr))"

fun createdAt_of :: "payload \<Rightarrow> string" where
  "createdAt_of (ListRecord l) = createdAt l"
| "createdAt_of (ListitemRecord it) = item_createdAt it"

definition stamps :: "event list \<Rightarrow> string list" where
  \<comment> \<open>the \<^verbatim>\<open>createdAt\<close> fields of the records sent\<close>
  "stamps tr = map (\<lambda>(d, r). createdAt_of (the_record d)) (create_calls tr)"

fun is_item_for :: "string \<Rightarrow> create_data \<times> (exn + create_response) \<Rightarrow> bool" where
  \<comment> \<open>a call that sends a membership record of the list \<open>u\<close>\<close>
  "is_item_for u (d, r) =
     (case the_record d of
        ListitemRecord it \<Rightarrow> item_list it = u \<and> collection d = AppBskyGraphListitem
      | ListRecord l \<Rightarrow> False)"

fun is_list_creation :: "create_data \<times> (exn + create_response) \<Rightarrow> bool" where
  \<comment> \<open>a call that sends a list record\<close>
  "is_list_creation (d, r) =
     (case the_record d of
        ListRecord l \<Rightarrow> collection d = AppBskyGraphList
      | ListitemRecord it \<Rightarrow> False)"

subsection \<open>Shapes of timestamps\<close>

text \<open>
  \<open>matches p s\<close>: the string \<open>s\<close> has the shape \<open>p\<close>, where \<^verbatim>\<open>d\<close> in \<open>p\<close> stands for
  one decimal digit and every other character for itself.
\<close>

fun matches :: "string \<Rightarrow> string \<Rightarrow> bool" where
  "matches [] [] = True"
| "matches (p # ps) (c # cs) =
     ((if p = CHR ''d'' then c \<in> set ''0123456789'' else c = p) \<and> matches ps cs)"
| "matches _ _ = False"

definition seconds_form :: "string \<Rightarrow> bool" where
  \<comment> \<open>the subsecond-free form of the specification\<close>
  "seconds_form s = matches ''dddd-dd-ddTdd:dd:ddZ'' s"

definition micros_form :: "string \<Rightarrow> bool" where
  "micros_form s = matches ''dddd-dd-ddTdd:dd:dd.ddddddZ'' s"

subsection \<open>Sequences of pages\<close>

text \<open>
  \<open>served e list_uri rs cur tr\<close>: asked by \<open>get_list_members\<close> from cursor \<open>cur\<close> at trace
  \<open>tr\<close>, the service answers the successive requests with the replies \<open>rs\<close>.
\<close>

definition page_members :: "response \<Rightarrow> string list" where
  "page_members p = map (\<lambda>item. did (subject item)) (items p)"

fun reply_members :: "response option \<Rightarrow> string list" where
  "reply_members None = []"
| "reply_members (Some p) = page_members p"

definition continues :: "response \<Rightarrow> bool" where
  \<comment> \<open>a page after which the loop asks for the next one\<close>
  "continues p \<longleftrightarrow> items p \<noteq> [] \<and> truthy (cursor p)"

fun stops :: "response option \<Rightarrow> bool" where
  "stops None = True"
| "stops (Some p) = (items p = [] \<or> \<not> truthy (cursor p))"

definition spec_last_page :: "response \<Rightarrow> bool" where
  \<comment> \<open>the last page in the words of the specification: cursor absent or no items\<close>
  "spec_last_page p \<longleftrightarrow> cursor p = None \<or> items p = []"

fun next_cursor :: "exn + response option \<Rightarrow> string option" where
  "next_cursor (Inr (Some p)) = cursor p"
| "next_cursor _ = None"

fun served ::
  "env \<Rightarrow> string \<Rightarrow> (exn + response option) list \<Rightarrow> string option \<Rightarrow> event list \<Rightarrow> bool"
where
  "served e list_uri [] cur tr = True"
| "served e list_uri (r # rs) cur tr =
     (let q = \<lparr>q_list = list_uri, q_limit = 100, q_cursor = cur\<rparr>
      in get_list e tr q = r \<and>
         served e list_uri rs (next_cursor r) (tr @ [GetListCall q r, Sleep 100]))"

subsection \<open>Runs of the handler\<close>

fun login_of :: "event \<Rightarrow> (exn + profile) list" where
  "login_of (LoginCall h pw r) = [r]"
| "login_of _ = []"

definition login_replies :: "event list \<Rightarrow> (exn + profile) list" where
  \<comment> \<open>what the login calls of a trace returned, in order: source account first\<close>
  "login_replies tr = concat (map login_of tr)"

fun bar_of :: "event \<Rightarrow> string list" where
  "bar_of (ProgressOpen n t) = [t]"
| "bar_of _ = []"

definition bars_opened :: "event list \<Rightarrow> string list" where
  \<comment> \<open>the progress bars opened: \<open>add_members_to_list\<close> opens one at each call\<close>
  "bars_opened tr = concat (map bar_of tr)"

fun is_fetch_event :: "event \<Rightarrow> bool" where
  "is_fetch_event (GetListCall q r) = True"
| "is_fetch_event (Sleep n) = True"
| "is_fetch_event (StError m) = True"
| "is_fetch_event _ = False"

fun texts_of :: "event \<Rightarrow> string list" where
  \<comment> \<open>the texts an event shows to the operator\<close>
  "texts_of (StError m) = [m]"
| "texts_of (StWarning m) = [m]"
| "texts_of (StSuccess m) = [m]"
| "texts_of (StInfo m) = [m]"
| "texts_of (StWrite m) = [m]"
| "texts_of (StatusOpen l) = [l]"
| "texts_of (StatusUpdate l s x) = [l]"
| "texts_of (ProgressOpen n t) = [t]"
| "texts_of (ProgressSet i n t) = [t]"
| "texts_of _ = []"

fun contains :: "string \<Rightarrow> string \<Rightarrow> bool" where
  \<comment> \<open>\<open>contains s t\<close>: \<open>s\<close> occurs in \<open>t\<close>\<close>
  "contains s [] = (s = [])"
| "contains s (c # cs) = (prefix s (c # cs) \<or> contains s cs)"

definition shows_text :: "string \<Rightarrow> event \<Rightarrow> bool" where
  "shows_text s ev = list_ex (contains s) (texts_of ev)"

definition count_summary :: "nat \<Rightarrow> nat \<Rightarrow> event" where
  \<comment> \<open>the one message of the program that reports how many members were added and failed\<close>
  "count_summary added failed =
     StSuccess (''Finished adding members. Successfully added: '' @ str_nat added @
                '', Failed: '' @ str_nat failed)"

text \<open>The events of each stage of the handler, given what the service answered.\<close>

definition source_login_open :: "inputs \<Rightarrow> event list" where
  \<comment> \<open>what the stage shows before the login call\<close>
  "source_login_open inp =
     [StatusOpen ''Logging into Source Account (Account A)...'',
      StWrite (''Attempting login for '' @ source_handle inp @ ''...'')]"

definition dest_login_open :: "inputs \<Rightarrow> event list" where
  "dest_login_open inp =
     [StatusOpen ''Logging into Destination Account (Account B)...'',
      StWrite (''Attempting login for '' @ dest_handle inp @ ''...'')]"

definition source_login_events :: "inputs \<Rightarrow> exn + profile \<Rightarrow> event list" where
  "source_login_events inp reply =
     [StatusOpen ''Logging into Source Account (Account A)...'',
      StWrite (''Attempting login for '' @ source_handle inp @ ''...''),
      LoginCall (source_handle inp) (source_password inp) reply] @
     (case reply of
        Inr p \<Rightarrow> [StWrite (logged_in_text p),
                  StatusUpdate ''Login Successful!'' ''complete'' False]
      | Inl ex \<Rightarrow> [StError (login_error_A ex), StatusUpdate ''Login Failed!'' ''error'' True])"

definition fetch_open :: "inputs \<Rightarrow> event" where
  "fetch_open inp = StatusOpen (''Fetching members from list '' @ source_list_uri inp @ ''...'')"

definition fetch_close :: "string list option \<Rightarrow> event list" where
  "fetch_close res =
     (case res of
        Some members \<Rightarrow>
          [StWrite (''Found '' @ str_nat (length members) @ '' members in the source list.''),
           StatusUpdate ''Fetched Members Successfully!'' ''complete'' False]
      | None \<Rightarrow>
          [StError ''Failed to fetch members. Cannot continue.'',
           StatusUpdate ''Fetching Members Failed!'' ''error'' True])"

definition dest_login_events :: "inputs \<Rightarrow> exn + profile \<Rightarrow> event list" where
  "dest_login_events inp reply =
     [StatusOpen ''Logging into Destination Account (Account B)...'',
      StWrite (''Attempting login for '' @ dest_handle inp @ ''...''),
      LoginCall (dest_handle inp) (dest_password inp) reply] @
     (case reply of
        Inr p \<Rightarrow> [StWrite (logged_in_text p),
                  StatusUpdate ''Login Successful!'' ''complete'' False]
      | Inl ex \<Rightarrow> [StError (login_error_B ex), StatusUpdate ''Login Failed!'' ''error'' True])"

definition create_open :: "inputs \<Rightarrow> event" where
  "create_open inp =
     StatusOpen (''Creating new list '' @ [apostrophe] @ dest_list_name inp @ [apostrophe] @
                 '' on Account B...'')"

definition list_data :: "inputs \<Rightarrow> profile \<Rightarrow> string \<Rightarrow> create_data" where
  "list_data inp p stamp =
     \<lparr>repo = did p, collection = AppBskyGraphList,
      the_record = ListRecord
        \<lparr>name = dest_list_name inp,
         purpose = (if prefix ''app.bsky.graph.defs#'' (dest_list_purpose inp)
                    then dest_list_purpose inp
                    else ''app.bsky.graph.defs#'' @ dest_list_purpose inp),
         description = dest_list_desc inp, createdAt = stamp\<rparr>\<rparr>"

definition create_close :: "string option \<Rightarrow> event list" where
  "create_close u =
     (if truthy u
      then [StWrite (''New list created with URI: '' @ the u),
            StatusUpdate ''List Creation Successful!'' ''complete'' False]
      else [StError ''Failed to create the new list. Cannot continue.'',
            StatusUpdate ''List Creation Failed!'' ''error'' True])"

definition create_events ::
  "inputs \<Rightarrow> create_data \<Rightarrow> exn + create_response \<Rightarrow> event list"
where
  "create_events inp dat reply =
     [create_open inp, CreateRecordCall dat reply] @
     (case reply of
        Inr resp \<Rightarrow>
          StSuccess (''Successfully created new list: '' @ uri resp) # create_close (Some (uri resp))
      | Inl ex \<Rightarrow> StError (create_error_message ex) # create_close None)"

definition create_rejected_events :: "inputs \<Rightarrow> exn \<Rightarrow> event list" where
  \<comment> \<open>the stage when the constructor of the list record raises: no call is made\<close>
  "create_rejected_events inp ex =
     [create_open inp, StError (create_error_message ex)] @ create_close None"

definition built_list_record :: "string \<Rightarrow> string \<Rightarrow> string \<Rightarrow> string \<Rightarrow> list_record" where
  \<comment> \<open>the fields \<open>create_new_list\<close> hands to the constructor of the list record\<close>
  "built_list_record n d p stamp =
     \<lparr>name = n,
      purpose = (if prefix ''app.bsky.graph.defs#'' p then p else ''app.bsky.graph.defs#'' @ p),
      description = d, createdAt = stamp\<rparr>"

definition required_filled :: "inputs \<Rightarrow> bool" where
  \<comment> \<open>the validation of the handler: every field but the description is non-empty\<close>
  "required_filled inp \<longleftrightarrow>
     source_handle inp \<noteq> [] \<and> source_password inp \<noteq> [] \<and> source_list_uri inp \<noteq> [] \<and>
     dest_handle inp \<noteq> [] \<and> dest_password inp \<noteq> [] \<and> dest_list_name inp \<noteq> [] \<and>
     dest_list_purpose inp \<noteq> []"

fun created_list :: "create_data \<times> (exn + create_response) \<Rightarrow> bool" where
  \<comment> \<open>a call that sent a list record and was answered with a non-empty URI\<close>
  "created_list (d, Inr resp) = (is_list_creation (d, Inr resp) \<and> uri resp \<noteq> [])"
| "created_list (d, Inl ex) = False"

definition list_created :: "event list \<Rightarrow> bool" where
  "list_created tr = list_ex created_list (create_calls tr)"

definition stopped :: event where
  "stopped = StError ''Migration process stopped due to errors.''"

definition nothing_to_add :: event where
  "nothing_to_add =
     StWarning (''No members found in the source list or new list wasn'' @ [apostrophe] @
                ''t created. Nothing to add.'')"

definition add_open :: "string list \<Rightarrow> event" where
  "add_open members =
     StInfo (''Starting to add '' @ str_nat (length members) @
             '' members to the new list. This may take a while...'')"

section \<open>Example worlds\<close>

definition member :: "string \<Rightarrow> list_item_view" where
  "member d = \<lparr>subject = \<lparr>handle = ''m.example'', did = d\<rparr>\<rparr>"

definition alice :: profile where
  "alice = \<lparr>handle = ''alice.example'', did = ''did:plc:alice''\<rparr>"

definition bob :: profile where
  "bob = \<lparr>handle = ''bob.example'', did = ''did:plc:bob''\<rparr>"

definition bob_client :: client where
  "bob_client = \<lparr>me = Some bob\<rparr>"

definition page1 :: response where
  "page1 = \<lparr>items = [member ''did:plc:d1'', member ''did:plc:d2''], cursor = Some ''c1''\<rparr>"

definition page2 :: response where
  "page2 = \<lparr>items = [member ''did:plc:d3''], cursor = None\<rparr>"

text \<open>
  Two pages of members; both accounts log in; the list is created; the membership
  record for \<^verbatim>\<open>did:plc:d2\<close> is rejected; the clock shows a time with microseconds; the
  constructor of the list record rejects a name of no or of more than 64 characters.
\<close>

definition world :: env where
  "world =
     \<lparr>login = (\<lambda>tr h pw. if h = ''alice.example'' then Inr alice
                          else if h = ''bob.example'' then Inr bob
                          else Inl (AtProtocolError ''Invalid identifier or password'')),
      get_list = (\<lambda>tr q. if q_cursor q = None then Inr (Some page1)
                         else if q_cursor q = Some ''c1'' then Inr (Some page2)
                         else Inl (AtProtocolError ''bad cursor'')),
      create_record = (\<lambda>tr d. case the_record d of
                          ListRecord l \<Rightarrow> Inr \<lparr>uri = ''at://did:plc:bob/app.bsky.graph.list/1''\<rparr>
                        | ListitemRecord it \<Rightarrow>
                            if item_subject it = ''did:plc:d2''
                            then Inl (AtProtocolError ''rate limit'')
                            else Inr \<lparr>uri = ''at://did:plc:bob/app.bsky.graph.listitem/1''\<rparr>),
      now_utc = (\<lambda>tr. \<lparr>year = 2024, month = 3, day = 5, hour = 7, minute = 8, second = 9,
                        microsecond = 123456\<rparr>),
      list_record_raises = (\<lambda>r. if name r = [] \<or> 64 < length (name r)
                                then Some (OtherException ''1 validation error for Record'')
                                else None)\<rparr>"

text \<open>The first page carries the empty string as its cursor.\<close>

definition empty_cursor_world :: env where
  "empty_cursor_world =
     world\<lparr>get_list := (\<lambda>tr q. if q_cursor q = None
                               then Inr (Some (page1\<lparr>cursor := Some []\<rparr>))
                               else Inr (Some page2))\<rparr>"

text \<open>The fetch of the second page raises.\<close>

definition failing_fetch_world :: env where
  "failing_fetch_world =
     world\<lparr>get_list := (\<lambda>tr q. if q_cursor q = None then Inr (Some page1)
                               else Inl (AtProtocolError ''timeout''))\<rparr>"

text \<open>The login of the destination account is rejected.\<close>

definition dest_login_fails_world :: env where
  "dest_login_fails_world =
     world\<lparr>login := (\<lambda>tr h pw. if h = ''alice.example'' then Inr alice
                               else Inl (AtProtocolError ''Invalid identifier or password''))\<rparr>"

text \<open>The source list has no members.\<close>

definition empty_list_world :: env where
  "empty_list_world =
     world\<lparr>get_list := (\<lambda>tr q. Inr (Some \<lparr>items = [], cursor = None\<rparr>))\<rparr>"

definition form :: inputs where
  "form =
     \<lparr>source_handle = ''alice.example'', source_password = ''app-pw-a'',
      source_list_uri = ''at://did:plc:alice/app.bsky.graph.list/7'',
      dest_handle = ''bob.example'', dest_password = ''app-pw-b'',
      dest_list_name = ''Copy'', dest_list_purpose = ''curatelist'',
      dest_list_desc = []\<rparr>"

text \<open>The events of the run of \<open>form\<close> in \<open>dest_login_fails_world\<close>.\<close>

definition dest_login_fails_trace :: "event list" where
  "dest_login_fails_trace =
     [StatusOpen ''Logging into Source Account (Account A)...'',
      StWrite ''Attempting login for alice.example...'',
      LoginCall ''alice.example'' ''app-pw-a'' (Inr alice),
      StWrite ''Logged in as alice.example (did:plc:alice)'',
      StatusUpdate ''Login Successful!'' ''complete'' False,
      StatusOpen ''Fetching members from list at://did:plc:alice/app.bsky.graph.list/7...'',
      GetListCall \<lparr>q_list = ''at://did:plc:alice/app.bsky.graph.list/7'', q_limit = 100,
                    q_cursor = None\<rparr> (Inr (Some page1)),
      Sleep 100,
      GetListCall \<lparr>q_list = ''at://did:plc:alice/app.bsky.graph.list/7'', q_limit = 100,
                    q_cursor = Some ''c1''\<rparr> (Inr (Some page2)),
      StWrite ''Found 3 members in the source list.'',
      StatusUpdate ''Fetched Members Successfully!'' ''complete'' False,
      StatusOpen ''Logging into Destination Account (Account B)...'',
      StWrite ''Attempting login for bob.example...'',
      LoginCall ''bob.example'' ''app-pw-b''
        (Inl (AtProtocolError ''Invalid identifier or password'')),
      StError ''Login failed for Account B: Invalid identifier or password'',
      StatusUpdate ''Login Failed!'' ''error'' True,
      StError ''Migration process stopped due to errors.'']"

text \<open>The events of the run of \<open>form\<close> in \<open>empty_list_world\<close>.\<close>

definition empty_list_trace :: "event list" where
  "empty_list_trace =
     [StatusOpen ''Logging into Source Account (Account A)...'',
      StWrite ''Attempting login for alice.example...'',
      LoginCall ''alice.example'' ''app-pw-a'' (Inr alice),
      StWrite ''Logged in as alice.example (did:plc:alice)'',
      StatusUpdate ''Login Successful!'' ''complete'' False,
      StatusOpen ''Fetching members from list at://did:plc:alice/app.bsky.graph.list/7...'',
      GetListCall \<lparr>q_list = ''at://did:plc:alice/app.bsky.graph.list/7'', q_limit = 100,
                    q_cursor = None\<rparr> (Inr (Some \<lparr>items = [], cursor = None\<rparr>)),
      StWrite ''Found 0 members in the source list.'',
      StatusUpdate ''Fetched Members Successfully!'' ''complete'' False,
      StatusOpen ''Logging into Destination Account (Account B)...'',
      StWrite ''Attempting login for bob.example...'',
      LoginCall ''bob.example'' ''app-pw-b'' (Inr bob),
      StWrite ''Logged in as bob.example (did:plc:bob)'',
      StatusUpdate ''Login Successful!'' ''complete'' False,
      create_open form,
      CreateRecordCall
        \<lparr>repo = ''did:plc:bob'', collection = ''app.bsky.graph.list'',
         the_record = ListRecord
           \<lparr>name = ''Copy'', purpose = ''app.bsky.graph.defs#curatelist'', description = [],
            createdAt = ''2024-03-05T07:08:09.123456Z''\<rparr>\<rparr>
        (Inr \<lparr>uri = ''at://did:plc:bob/app.bsky.graph.list/1''\<rparr>),
      StSuccess ''Successfully created new list: at://did:plc:bob/app.bsky.graph.list/1'',
      StWrite ''New list created with URI: at://did:plc:bob/app.bsky.graph.list/1'',
      StatusUpdate ''List Creation Successful!'' ''complete'' False,
      nothing_to_add]"

text \<open>The events of the run of \<open>form\<close> in \<open>world\<close>.\<close>

definition listitem_call :: "string \<Rightarrow> exn + create_response \<Rightarrow> event" where
  "listitem_call d reply =
     CreateRecordCall
       \<lparr>repo = ''did:plc:bob'', collection = ''app.bsky.graph.listitem'',
        the_record = ListitemRecord
          \<lparr>item_subject = d, item_list = ''at://did:plc:bob/app.bsky.graph.list/1'',
           item_createdAt = ''2024-03-05T07:08:09.123456Z''\<rparr>\<rparr>
       reply"

definition world_trace :: "event list" where
  "world_trace =
     [StatusOpen ''Logging into Source Account (Account A)...'',
      StWrite ''Attempting login for alice.example...'',
      LoginCall ''alice.example'' ''app-pw-a'' (Inr alice),
      StWrite ''Logged in as alice.example (did:plc:alice)'',
      StatusUpdate ''Login Successful!'' ''complete'' False,
      StatusOpen ''Fetching members from list at://did:plc:alice/app.bsky.graph.list/7...'',
      GetListCall \<lparr>q_list = ''at://did:plc:alice/app.bsky.graph.list/7'', q_limit = 100,
                    q_cursor = None\<rparr> (Inr (Some page1)),
      Sleep 100,
      GetListCall \<lparr>q_list = ''at://did:plc:alice/app.bsky.graph.list/7'', q_limit = 100,
                    q_cursor = Some ''c1''\<rparr> (Inr (Some page2)),
      StWrite ''Found 3 members in the source list.'',
      StatusUpdate ''Fetched Members Successfully!'' ''complete'' False,
      StatusOpen ''Logging into Destination Account (Account B)...'',
      StWrite ''Attempting login for bob.example...'',
      LoginCall ''bob.example'' ''app-pw-b'' (Inr bob),
      StWrite ''Logged in as bob.example (did:plc:bob)'',
      StatusUpdate ''Login Successful!'' ''complete'' False,
      create_open form,
      CreateRecordCall
        \<lparr>repo = ''did:plc:bob'', collection = ''app.bsky.graph.list'',
         the_record = ListRecord
           \<lparr>name = ''Copy'', purpose = ''app.bsky.graph.defs#curatelist'', description = [],
            createdAt = ''2024-03-05T07:08:09.123456Z''\<rparr>\<rparr>
        (Inr \<lparr>uri = ''at://did:plc:bob/app.bsky.graph.list/1''\<rparr>),
      StSuccess ''Successfully created new list: at://did:plc:bob/app.bsky.graph.list/1'',
      StWrite ''New list created with URI: at://did:plc:bob/app.bsky.graph.list/1'',
      StatusUpdate ''List Creation Successful!'' ''complete'' False,
      StInfo ''Starting to add 3 members to the new list. This may take a while...'',
      ProgressOpen 0 ''Adding members (0/3)...'',
      listitem_call ''did:plc:d1'' (Inr \<lparr>uri = ''at://did:plc:bob/app.bsky.graph.listitem/1''\<rparr>),
      Sleep 200,
      ProgressSet 1 3 ''Adding members (1/3)... 0 failed.'',
      listitem_call ''did:plc:d2'' (Inl (AtProtocolError ''rate limit'')),
      StWarning ''Failed to add member did:plc:d2: rate limit'',
      Sleep 1000,
      ProgressSet 2 3 ''Adding members (2/3)... 1 failed.'',
      listitem_call ''did:plc:d3'' (Inr \<lparr>uri = ''at://did:plc:bob/app.bsky.graph.listitem/1''\<rparr>),
      Sleep 200,
      ProgressSet 3 3 ''Adding members (3/3)... 1 failed.'',
      ProgressEmpty,
      StSuccess ''Finished adding members. Successfully added: 2, Failed: 1'',
      StBalloons]"

section \<open>Lemmas on the observations\<close>

lemma fetch_calls_simps [simp]:
  "fetch_calls [] = []"
  "fetch_calls (x # tr) = fetch_of x @ fetch_calls tr"
  "fetch_calls (a @ b) = fetch_calls a @ fetch_calls b"
  by (simp_all add: fetch_calls_def)

lemma create_calls_simps [simp]:
  "create_calls [] = []"
  "create_calls (x # tr) = sent_record x @ create_calls tr"
  "create_calls (a @ b) = create_calls a @ create_calls b"
  by (simp_all add: create_calls_def)

lemma failed_calls_simps [simp]:
  "failed_calls [] = []"
  "failed_calls (CreateRecordCall d r # tr) = (if isl r then [(d, r)] else []) @ failed_calls tr"
  "sent_record x = [] \<Longrightarrow> failed_calls (x # tr) = failed_calls tr"
  "failed_calls (a @ b) = failed_calls a @ failed_calls b"
  by (simp_all add: failed_calls_def)

lemma attempted_subjects_simps [simp]:
  "attempted_subjects [] = []"
  "attempted_subjects (CreateRecordCall d r # tr) = subject_of (the_record d) @ attempted_subjects tr"
  "sent_record x = [] \<Longrightarrow> attempted_subjects (x # tr) = attempted_subjects tr"
  "attempted_subjects (a @ b) = attempted_subjects a @ attempted_subjects b"
  by (simp_all add: attempted_subjects_def)

lemma warnings_simps [simp]:
  "warnings [] = []"
  "warnings (x # tr) = warning_of x @ warnings tr"
  "warnings (a @ b) = warnings a @ warnings b"
  by (simp_all add: warnings_def)

lemma progress_updates_simps [simp]:
  "progress_updates [] = []"
  "progress_updates (x # tr) = progress_of x @ progress_updates tr"
  "progress_updates (a @ b) = progress_updates a @ progress_updates b"
  by (simp_all add: progress_updates_def)

lemma stored_purposes_simps [simp]:
  "stored_purposes [] = []"
  "stored_purposes (CreateRecordCall d r # tr) = purpose_of (the_record d) @ stored_purposes tr"
  "sent_record x = [] \<Longrightarrow> stored_purposes (x # tr) = stored_purposes tr"
  "stored_purposes (a @ b) = stored_purposes a @ stored_purposes b"
  by (simp_all add: stored_purposes_def)

lemma stamps_simps [simp]:
  "stamps [] = []"
  "stamps (CreateRecordCall d r # tr) = createdAt_of (the_record d) # stamps tr"
  "sent_record x = [] \<Longrightarrow> stamps (x # tr) = stamps tr"
  "stamps (a @ b) = stamps a @ stamps b"
  by (simp_all add: stamps_def)

lemma login_replies_simps [simp]:
  "login_replies [] = []"
  "login_replies (x # tr) = login_of x @ login_replies tr"
  "login_replies (a @ b) = login_replies a @ login_replies b"
  by (simp_all add: login_replies_def)

lemma bars_opened_simps [simp]:
  "bars_opened [] = []"
  "bars_opened (x # tr) = bar_of x @ bars_opened tr"
  "bars_opened (a @ b) = bars_opened a @ bars_opened b"
  by (simp_all add: bars_opened_def)

text \<open>A trace of fetch events has no login, no record creation and no progress bar.\<close>

lemma fetch_events_observed:
  assumes "list_all is_fetch_event ev"
  shows "create_calls ev = []" and "login_replies ev = []" and "bars_opened ev = []"
    and "attempted_subjects ev = []" and "count_summary a f \<notin> set ev"
proof -
  have "create_calls ev = [] \<and> login_replies ev = [] \<and> bars_opened ev = [] \<and>
        count_summary a f \<notin> set ev"
    using assms
  proof (induction ev)
    case Nil
    then show ?case by simp
  next
    case (Cons x ev)
    then show ?case by (cases x) (simp_all add: count_summary_def)
  qed
  then show "create_calls ev = []" and "login_replies ev = []" and "bars_opened ev = []"
    and "attempted_subjects ev = []" and "count_summary a f \<notin> set ev"
    by (simp_all add: attempted_subjects_def)
qed

section \<open>The pagination loop\<close>

text \<open>One unfolding of the loop for each way a request can end.\<close>

lemma loop_raise:
  "get_list e tr \<lparr>q_list = list_uri, q_limit = 100, q_cursor = cur\<rparr> = Inl ex \<Longrightarrow>
   get_list_members_loop e list_uri cur members tr =
     Some (Inl ex, tr @ [GetListCall \<lparr>q_list = list_uri, q_limit = 100, q_cursor = cur\<rparr> (Inl ex)])"
  by (subst get_list_members_loop.simps) simp

lemma loop_stop:
  "get_list e tr \<lparr>q_list = list_uri, q_limit = 100, q_cursor = cur\<rparr> = Inr r \<Longrightarrow> stops r \<Longrightarrow>
   get_list_members_loop e list_uri cur members tr =
     Some (Inr (members @ reply_members r),
           tr @ [GetListCall \<lparr>q_list = list_uri, q_limit = 100, q_cursor = cur\<rparr> (Inr r)])"
  by (subst get_list_members_loop.simps) (cases r; auto simp: Let_def page_members_def)

lemma loop_continue:
  "get_list e tr \<lparr>q_list = list_uri, q_limit = 100, q_cursor = cur\<rparr> = Inr (Some p) \<Longrightarrow>
   continues p \<Longrightarrow>
   get_list_members_loop e list_uri cur members tr =
     get_list_members_loop e list_uri (cursor p) (members @ page_members p)
       (tr @ [GetListCall \<lparr>q_list = list_uri, q_limit = 100, q_cursor = cur\<rparr> (Inr (Some p)),
              Sleep 100])"
  by (subst get_list_members_loop.simps) (simp add: Let_def page_members_def continues_def)

text \<open>
  Over a run of pages that all continue, the loop arrives at the request that gets the
  reply after them, with the members of these pages appended in order.
\<close>

lemma loop_pages:
  "served e list_uri (map (\<lambda>p. Inr (Some p)) ps @ [r]) cur tr \<Longrightarrow> \<forall>p\<in>set ps. continues p \<Longrightarrow>
   \<exists>ev cur'.
     get_list_members_loop e list_uri cur members tr =
       get_list_members_loop e list_uri cur' (members @ concat (map page_members ps)) (tr @ ev) \<and>
     get_list e (tr @ ev) \<lparr>q_list = list_uri, q_limit = 100, q_cursor = cur'\<rparr> = r \<and>
     map snd (fetch_calls ev) = map (\<lambda>p. Inr (Some p)) ps"
proof (induction ps arbitrary: cur tr members)
  case Nil
  then show ?case
    by (intro exI [of _ "[]"] exI [of _ cur]) (simp add: Let_def)
next
  case (Cons p ps)
  let ?q = "\<lparr>q_list = list_uri, q_limit = 100, q_cursor = cur\<rparr>"
  let ?tr1 = "tr @ [GetListCall ?q (Inr (Some p)), Sleep 100]"
  from Cons.prems have g: "get_list e tr ?q = Inr (Some p)"
    and s: "served e list_uri (map (\<lambda>p. Inr (Some p)) ps @ [r]) (cursor p) ?tr1"
    and c: "continues p" and cs: "\<forall>p\<in>set ps. continues p"
    by (simp_all add: Let_def)
  from Cons.IH [OF s cs, of "members @ page_members p"] obtain ev cur' where
    l: "get_list_members_loop e list_uri (cursor p) (members @ page_members p) ?tr1 =
        get_list_members_loop e list_uri cur'
          ((members @ page_members p) @ concat (map page_members ps)) (?tr1 @ ev)"
    and q: "get_list e (?tr1 @ ev) \<lparr>q_list = list_uri, q_limit = 100, q_cursor = cur'\<rparr> = r"
    and f: "map snd (fetch_calls ev) = map (\<lambda>p. Inr (Some p)) ps"
    by blast
  let ?ev = "[GetListCall ?q (Inr (Some p)), Sleep 100] @ ev"
  have "get_list_members_loop e list_uri cur members tr =
        get_list_members_loop e list_uri cur' (members @ concat (map page_members (p # ps)))
          (tr @ ?ev)"
    using loop_continue [OF g c, of members] l by simp
  moreover have "get_list e (tr @ ?ev) \<lparr>q_list = list_uri, q_limit = 100, q_cursor = cur'\<rparr> = r"
    using q by simp
  moreover have "map snd (fetch_calls ?ev) = map (\<lambda>p. Inr (Some p)) (p # ps)"
    using f by simp
  ultimately show ?case by blast
qed

text \<open>
  Whenever the loop returns, what it added to the trace starts with its first request
  and consists of requests and pauses only.
\<close>

lemma loop_events:
  assumes ret: "get_list_members_loop e list_uri cur members tr = Some out"
  shows "\<exists>ev. snd out =
                 tr @ GetListCall \<lparr>q_list = list_uri, q_limit = 100, q_cursor = cur\<rparr>
                        (get_list e tr \<lparr>q_list = list_uri, q_limit = 100, q_cursor = cur\<rparr>) # ev \<and>
              list_all is_fetch_event ev"
proof (rule get_list_members_loop.raw_induct
    [where P = "\<lambda>e list_uri cur members tr out.
        \<exists>ev. snd out =
               tr @ GetListCall \<lparr>q_list = list_uri, q_limit = 100, q_cursor = cur\<rparr>
                      (get_list e tr \<lparr>q_list = list_uri, q_limit = 100, q_cursor = cur\<rparr>) # ev \<and>
             list_all is_fetch_event ev", OF _ ret])
  fix f and e :: env and list_uri cur members tr
    and y :: "(exn + string list) \<times> event list"
  let ?q = "\<lparr>q_list = list_uri, q_limit = 100, q_cursor = cur\<rparr>"
  let ?tr1 = "tr @ [GetListCall ?q (get_list e tr ?q)]"
  assume IH: "\<And>(e :: env) list_uri cur members tr y.
      f e list_uri cur members tr = Some y \<Longrightarrow>
      \<exists>ev. snd y =
             tr @ GetListCall \<lparr>q_list = list_uri, q_limit = 100, q_cursor = cur\<rparr>
                    (get_list e tr \<lparr>q_list = list_uri, q_limit = 100, q_cursor = cur\<rparr>) # ev \<and>
           list_all is_fetch_event ev"
    and eq: "(let ps = ?q; reply = get_list e tr ps; tr1 = tr @ [GetListCall ps reply]
      in case reply of
           Inl ex \<Rightarrow> Some (Inl ex, tr1)
         | Inr None \<Rightarrow> Some (Inr members, tr1)
         | Inr (Some resp) \<Rightarrow>
             (if items resp = [] then Some (Inr members, tr1)
              else
                let members' = members @ map (\<lambda>item. did (subject item)) (items resp);
                    cur' = cursor resp
                in if \<not> truthy cur' then Some (Inr members', tr1)
                   else f e list_uri cur' members' (tr1 @ [Sleep 100]))) = Some y"
  consider (stop) "snd y = ?tr1"
    | (continue) cur' members' where "f e list_uri cur' members' (?tr1 @ [Sleep 100]) = Some y"
    using eq by (auto simp: Let_def split: sum.splits option.splits if_splits)
  then show "\<exists>ev. snd y = tr @ GetListCall ?q (get_list e tr ?q) # ev \<and>
                  list_all is_fetch_event ev"
  proof cases
    case stop
    then show ?thesis by simp
  next
    case continue
    from IH [OF this] obtain ev where
      "snd y = (?tr1 @ [Sleep 100]) @
               GetListCall \<lparr>q_list = list_uri, q_limit = 100, q_cursor = cur'\<rparr>
                 (get_list e (?tr1 @ [Sleep 100])
                    \<lparr>q_list = list_uri, q_limit = 100, q_cursor = cur'\<rparr>) # ev"
      and "list_all is_fetch_event ev" by blast
    then show ?thesis by simp
  qed
qed

lemma get_list_members_events:
  assumes "get_list_members e c list_uri tr = Some (res, tr')"
  shows "\<exists>ev. tr' = tr @ GetListCall \<lparr>q_list = list_uri, q_limit = 100, q_cursor = None\<rparr>
                         (get_list e tr \<lparr>q_list = list_uri, q_limit = 100, q_cursor = None\<rparr>) # ev \<and>
              list_all is_fetch_event ev"
proof -
  from assms obtain out where l: "get_list_members_loop e list_uri None [] tr = Some out"
    by (cases "get_list_members_loop e list_uri None [] tr") (auto simp: get_list_members_def)
  from loop_events [OF l] obtain ev where
    ev: "snd out =
           tr @ GetListCall \<lparr>q_list = list_uri, q_limit = 100, q_cursor = None\<rparr>
                  (get_list e tr \<lparr>q_list = list_uri, q_limit = 100, q_cursor = None\<rparr>) # ev"
    and f: "list_all is_fetch_event ev" by blast
  from assms l ev f show ?thesis
    by (cases out; cases "fst out") (auto simp: get_list_members_def)
qed

text \<open>A first page without items ends the listing with no members.\<close>

lemma get_list_members_empty_first_page:
  assumes "get_list e tr \<lparr>q_list = list_uri, q_limit = 100, q_cursor = None\<rparr> = Inr (Some p)"
    and "items p = []"
  shows "get_list_members e c list_uri tr =
           Some (Some [], tr @ [GetListCall \<lparr>q_list = list_uri, q_limit = 100, q_cursor = None\<rparr>
                                  (Inr (Some p))])"
  using loop_stop [OF assms(1), of "[]"] assms(2)
  by (simp add: get_list_members_def page_members_def)

text \<open>
  C1 (as amended). For every sequence of pages \<open>ps\<close> that each have items and a non-empty
  cursor, followed by a reply \<open>final\<close> that is no response, has no items, or has a cursor
  that is absent or the empty string: \<open>get_list_members\<close> returns the member identifiers
  of \<open>ps\<close> and of \<open>final\<close> concatenated in the order served, and the requests it made are
  exactly those answered by \<open>ps\<close> and \<open>final\<close>, so it stops at \<open>final\<close>.
\<close>

theorem get_list_members_concatenates_pages:
  assumes "served e list_uri (map (\<lambda>p. Inr (Some p)) ps @ [Inr final]) None tr"
    and "\<forall>p\<in>set ps. continues p"
    and "stops final"
  shows "\<exists>ev. get_list_members e c list_uri tr =
                 Some (Some (concat (map page_members ps) @ reply_members final), tr @ ev) \<and>
              map snd (fetch_calls ev) = map (\<lambda>p. Inr (Some p)) ps @ [Inr final]"
proof -
  from loop_pages [OF assms(1,2), of "[]"] obtain ev cur' where
    l: "get_list_members_loop e list_uri None [] tr =
        get_list_members_loop e list_uri cur' (concat (map page_members ps)) (tr @ ev)"
    and q: "get_list e (tr @ ev) \<lparr>q_list = list_uri, q_limit = 100, q_cursor = cur'\<rparr> = Inr final"
    and f: "map snd (fetch_calls ev) = map (\<lambda>p. Inr (Some p)) ps"
    by auto
  let ?ev = "ev @ [GetListCall \<lparr>q_list = list_uri, q_limit = 100, q_cursor = cur'\<rparr> (Inr final)]"
  have "get_list_members e c list_uri tr =
          Some (Some (concat (map page_members ps) @ reply_members final), tr @ ?ev)"
    using l loop_stop [OF q assms(3), of "concat (map page_members ps)"]
    by (simp add: get_list_members_def)
  moreover have "map snd (fetch_calls ?ev) = map (\<lambda>p. Inr (Some p)) ps @ [Inr final]"
    using f by simp
  ultimately show ?thesis by blast
qed

theorem get_list_members_concatenates_pages_witness:
  "served world ''at://l'' (map (\<lambda>p. Inr (Some p)) [page1] @ [Inr (Some page2)]) None [] \<and>
   continues page1 \<and> stops (Some page2) \<and>
   (\<exists>ev. get_list_members world bob_client ''at://l'' [] =
           Some (Some [''did:plc:d1'', ''did:plc:d2'', ''did:plc:d3''], ev) \<and>
         map snd (fetch_calls ev) = [Inr (Some page1), Inr (Some page2)])"
proof -
  have h1: "served world ''at://l'' (map (\<lambda>p. Inr (Some p)) [page1] @ [Inr (Some page2)]) None []"
    by (simp add: world_def page1_def page2_def)
  have h2: "\<forall>p\<in>set [page1]. continues p"
    by (simp add: continues_def page1_def truthy_def)
  have h3: "stops (Some page2)"
    by (simp add: page2_def truthy_def)
  have m: "concat (map page_members [page1]) @ reply_members (Some page2) =
           [''did:plc:d1'', ''did:plc:d2'', ''did:plc:d3'']"
    by (simp add: page_members_def page1_def page2_def member_def)
  from get_list_members_concatenates_pages [OF h1 h2 h3, of bob_client] h1 h2 h3 m
  show ?thesis by simp
qed

text \<open>
  The claim as the specification words it takes the last page to be the first one whose
  cursor is absent or whose item list is empty. In \<open>empty_cursor_world\<close> the first page has
  two items and the empty string as cursor, the second page has one item and no cursor:
  by these words the second page is the last one and three members are due. The loop
  stops after the first page, since \<^verbatim>\<open>not ""\<close> holds in Python.
\<close>

theorem get_list_members_empty_cursor_counterexample:
  "served empty_cursor_world ''at://l''
     [Inr (Some (page1\<lparr>cursor := Some []\<rparr>)), Inr (Some page2)] None [] \<and>
   \<not> spec_last_page (page1\<lparr>cursor := Some []\<rparr>) \<and> spec_last_page page2 \<and>
   concat (map page_members [page1\<lparr>cursor := Some []\<rparr>, page2]) =
     [''did:plc:d1'', ''did:plc:d2'', ''did:plc:d3''] \<and>
   map_option fst (get_list_members empty_cursor_world bob_client ''at://l'' []) =
     Some (Some [''did:plc:d1'', ''did:plc:d2''])"
proof -
  have "get_list_members_loop empty_cursor_world ''at://l'' None [] [] =
        Some (Inr ([] @ reply_members (Some (page1\<lparr>cursor := Some []\<rparr>))),
              [] @ [GetListCall \<lparr>q_list = ''at://l'', q_limit = 100, q_cursor = None\<rparr>
                      (Inr (Some (page1\<lparr>cursor := Some []\<rparr>)))])"
    by (rule loop_stop) (simp_all add: empty_cursor_world_def world_def truthy_def)
  then show ?thesis
    by (simp add: get_list_members_def page_members_def page1_def page2_def member_def
        spec_last_page_def empty_cursor_world_def world_def)
qed

text \<open>
  C2. If the pages \<open>ps\<close> were served and the next fetch raises \<open>ex\<close>, \<open>get_list_members\<close>
  returns \<^verbatim>\<open>None\<close>, whatever the pages before held; the last thing it does is
  \<^verbatim>\<open>st.error\<close> with the message of \<open>ex\<close>; and the failed request is its last request:
  it is not sent again.
\<close>

theorem get_list_members_fetch_error:
  assumes "served e list_uri (map (\<lambda>p. Inr (Some p)) ps @ [Inl ex]) None tr"
    and "\<forall>p\<in>set ps. continues p"
  shows "\<exists>ev. get_list_members e c list_uri tr =
                 Some (None, tr @ ev @ [StError (fetch_error_message list_uri ex)]) \<and>
              map snd (fetch_calls ev) = map (\<lambda>p. Inr (Some p)) ps @ [Inl ex]"
proof -
  from loop_pages [OF assms(1,2), of "[]"] obtain ev cur' where
    l: "get_list_members_loop e list_uri None [] tr =
        get_list_members_loop e list_uri cur' (concat (map page_members ps)) (tr @ ev)"
    and q: "get_list e (tr @ ev) \<lparr>q_list = list_uri, q_limit = 100, q_cursor = cur'\<rparr> = Inl ex"
    and f: "map snd (fetch_calls ev) = map (\<lambda>p. Inr (Some p)) ps"
    by auto
  let ?ev = "ev @ [GetListCall \<lparr>q_list = list_uri, q_limit = 100, q_cursor = cur'\<rparr> (Inl ex)]"
  have "get_list_members e c list_uri tr =
          Some (None, tr @ ?ev @ [StError (fetch_error_message list_uri ex)])"
    using l loop_raise [OF q, of "concat (map page_members ps)"]
    by (simp add: get_list_members_def)
  moreover have "map snd (fetch_calls ?ev) = map (\<lambda>p. Inr (Some p)) ps @ [Inl ex]"
    using f by simp
  ultimately show ?thesis by blast
qed

theorem get_list_members_fetch_error_witness:
  "served failing_fetch_world ''at://l''
     (map (\<lambda>p. Inr (Some p)) [page1] @ [Inl (AtProtocolError ''timeout'')]) None [] \<and>
   continues page1 \<and>
   (\<exists>ev. get_list_members failing_fetch_world bob_client ''at://l'' [] =
           Some (None, ev @ [StError ''Error fetching list members from at://l: timeout'']) \<and>
         map snd (fetch_calls ev) = [Inr (Some page1), Inl (AtProtocolError ''timeout'')])"
proof -
  have h1: "served failing_fetch_world ''at://l''
              (map (\<lambda>p. Inr (Some p)) [page1] @ [Inl (AtProtocolError ''timeout'')]) None []"
    by (simp add: failing_fetch_world_def world_def page1_def)
  have h2: "\<forall>p\<in>set [page1]. continues p"
    by (simp add: continues_def page1_def truthy_def)
  from get_list_members_fetch_error [OF h1 h2, of bob_client] h1 h2
  show ?thesis by (simp add: fetch_error_message_def)
qed

section \<open>Timestamps\<close>

lemma digit_char_digit: "digit_char d \<in> set ''0123456789''"
  unfolding digit_char_def by (rule nth_mem) simp

lemma str_nat_digits: "set (str_nat n) \<subseteq> set ''0123456789''"
proof (induction n rule: less_induct)
  case (less n)
  have "str_nat n = (if n < 10 then [] else str_nat (n div 10)) @ [digit_char (n mod 10)]"
    by (subst str_nat.simps) simp
  moreover have "set (str_nat (n div 10)) \<subseteq> set ''0123456789''" if "\<not> n < 10"
    using that by (intro less.IH) simp
  ultimately show ?case
    using digit_char_digit [of "n mod 10"] by (cases "n < 10") simp_all
qed

lemma str_nat_length: "n < 10 ^ w \<Longrightarrow> 0 < w \<Longrightarrow> length (str_nat n) \<le> w"
proof (induction w arbitrary: n)
  case 0
  then show ?case by simp
next
  case (Suc w)
  show ?case
  proof (cases "n < 10")
    case True
    then show ?thesis by (subst str_nat.simps) simp
  next
    case False
    with Suc.prems have d: "n div 10 < 10 ^ w" by simp
    with False have "0 < w" by (cases w) auto
    with Suc.IH d have "length (str_nat (n div 10)) \<le> w" by simp
    with False show ?thesis by (subst str_nat.simps) simp
  qed
qed

lemma zero_pad_digits:
  assumes "n < 10 ^ w" and "0 < w"
  shows "length (zero_pad w n) = w" and "set (zero_pad w n) \<subseteq> set ''0123456789''"
proof -
  from assms show "length (zero_pad w n) = w"
    using str_nat_length [of n w] by (simp add: zero_pad_def)
  show "set (zero_pad w n) \<subseteq> set ''0123456789''"
    using str_nat_digits [of n] by (auto simp: zero_pad_def)
qed

lemma matches_digits:
  "length s = length ds \<Longrightarrow> set ds \<subseteq> {CHR ''d''} \<Longrightarrow> set s \<subseteq> set ''0123456789'' \<Longrightarrow>
   matches (ds @ p) (s @ t) = matches p t"
proof (induction ds arbitrary: s)
  case Nil
  then show ?case by simp
next
  case (Cons d ds)
  then obtain c cs where s: "s = c # cs" by (cases s) auto
  with Cons.prems have "matches (ds @ p) (cs @ t) = matches p t"
    by (intro Cons.IH) auto
  with Cons.prems s show ?case by simp
qed

lemma matches_zero_pad:
  "n < 10 ^ 4 \<Longrightarrow>
   matches (CHR ''d'' # CHR ''d'' # CHR ''d'' # CHR ''d'' # p) (zero_pad 4 n @ t) = matches p t"
  "n < 10 ^ 2 \<Longrightarrow> matches (CHR ''d'' # CHR ''d'' # p) (zero_pad 2 n @ t) = matches p t"
  "n < 10 ^ 6 \<Longrightarrow>
   matches (CHR ''d'' # CHR ''d'' # CHR ''d'' # CHR ''d'' # CHR ''d'' # CHR ''d'' # p)
     (zero_pad 6 n @ t) = matches p t"
  using matches_digits [of "zero_pad 4 n" "''dddd''" p t] zero_pad_digits [of n 4]
    matches_digits [of "zero_pad 2 n" "''dd''" p t] zero_pad_digits [of n 2]
    matches_digits [of "zero_pad 6 n" "''dddddd''" p t] zero_pad_digits [of n 6]
  by simp_all

text \<open>The offset is the only place of the ISO string where a \<^verbatim>\<open>+\<close> occurs.\<close>

lemma str_replace_suffix:
  "CHR ''+'' \<notin> set xs \<Longrightarrow> str_replace ''+00:00'' ''Z'' (xs @ ''+00:00'') = xs @ ''Z''"
  by (induction xs) auto

lemma zero_pad_no_plus:
  assumes "n < 10 ^ w" and "0 < w"
  shows "CHR ''+'' \<notin> set (zero_pad w n)"
  using zero_pad_digits(2) [OF assms] by auto

lemma created_at_eq:
  assumes "valid_datetime d"
  shows "created_at d =
     zero_pad 4 (year d) @ ''-'' @ zero_pad 2 (month d) @ ''-'' @ zero_pad 2 (day d) @ ''T'' @
     zero_pad 2 (hour d) @ '':'' @ zero_pad 2 (minute d) @ '':'' @ zero_pad 2 (second d) @
     (if microsecond d \<noteq> 0 then ''.'' @ zero_pad 6 (microsecond d) else []) @ ''Z''"
proof -
  let ?body = "zero_pad 4 (year d) @ ''-'' @ zero_pad 2 (month d) @ ''-'' @
     zero_pad 2 (day d) @ ''T'' @ zero_pad 2 (hour d) @ '':'' @ zero_pad 2 (minute d) @ '':'' @
     zero_pad 2 (second d) @
     (if microsecond d \<noteq> 0 then ''.'' @ zero_pad 6 (microsecond d) else [])"
  from assms have "CHR ''+'' \<notin> set ?body"
    by (simp add: valid_datetime_def zero_pad_no_plus)
  then have "str_replace ''+00:00'' ''Z'' (?body @ ''+00:00'') = ?body @ ''Z''"
    by (rule str_replace_suffix)
  then show ?thesis
    by (simp add: created_at_def isoformat_def)
qed

lemma created_at_form:
  assumes "valid_datetime d"
  shows "if microsecond d = 0 then seconds_form (created_at d) else micros_form (created_at d)"
proof -
  from assms have r: "year d < 10 ^ 4" "month d < 10 ^ 2" "day d < 10 ^ 2" "hour d < 10 ^ 2"
    "minute d < 10 ^ 2" "second d < 10 ^ 2" "microsecond d < 10 ^ 6"
    by (simp_all add: valid_datetime_def)
  have s: "matches (''dddd'' @ ''-'' @ ''dd'' @ ''-'' @ ''dd'' @ ''T'' @ ''dd'' @ '':'' @ ''dd'' @
             '':'' @ ''dd'' @ ''Z'')
            (zero_pad 4 (year d) @ ''-'' @ zero_pad 2 (month d) @ ''-'' @ zero_pad 2 (day d) @
             ''T'' @ zero_pad 2 (hour d) @ '':'' @ zero_pad 2 (minute d) @ '':'' @
             zero_pad 2 (second d) @ ''Z'')"
    using r by (simp add: matches_zero_pad)
  have m: "matches (''dddd'' @ ''-'' @ ''dd'' @ ''-'' @ ''dd'' @ ''T'' @ ''dd'' @ '':'' @ ''dd'' @
             '':'' @ ''dd'' @ ''.'' @ ''dddddd'' @ ''Z'')
            (zero_pad 4 (year d) @ ''-'' @ zero_pad 2 (month d) @ ''-'' @ zero_pad 2 (day d) @
             ''T'' @ zero_pad 2 (hour d) @ '':'' @ zero_pad 2 (minute d) @ '':'' @
             zero_pad 2 (second d) @ ''.'' @ zero_pad 6 (microsecond d) @ ''Z'')"
    using r by (simp add: matches_zero_pad)
  show ?thesis
  proof (cases "microsecond d = 0")
    case True
    with s show ?thesis
      by (simp add: created_at_eq [OF assms] seconds_form_def)
  next
    case False
    with m show ?thesis
      by (simp add: created_at_eq [OF assms] micros_form_def)
  qed
qed

section \<open>The replication loop\<close>

lemma str_nat_0: "str_nat 0 = ''0''"
  by (subst str_nat.simps) (simp add: digit_char_def)

text \<open>
  The \<^verbatim>\<open>try\<close> statement handles every exception of its body: it extends the trace,
  counts the member once, warns exactly when it counts a failure, and sends one
  membership record when the client is logged in.
\<close>

lemma try_add_member_shape:
  "\<exists>s' f' ev. try_add_member e c list_uri m (s, f, tr) = (s', f', tr @ ev) \<and>
     s' + f' = Suc (s + f) \<and>
     f' = f + length (warnings ev) \<and>
     progress_updates ev = [] \<and>
     list_all (is_item_for list_uri) (create_calls ev) \<and>
     set (stamps ev) \<subseteq> range (\<lambda>h. created_at (now_utc e h)) \<and>
     (me c \<noteq> None \<longrightarrow> attempted_subjects ev = [m] \<and> f' = f + length (failed_calls ev))"
  by (cases "me c";
      cases "create_record e tr
               \<lparr>repo = did (the (me c)), collection = AppBskyGraphListitem,
                the_record = ListitemRecord
                  \<lparr>item_subject = m, item_list = list_uri,
                   item_createdAt = created_at (now_utc e tr)\<rparr>\<rparr>")
     (simp_all add: try_add_member_def Let_def)

lemma add_members_loop_shape:
  "total_n \<noteq> 0 \<or> ms = [] \<Longrightarrow>
   \<exists>s' f' ev.
     add_members_loop e c list_uri total_n (enumerate k ms) (s, f, tr) =
       (Inr (s', f'), tr @ ev) \<and>
     s' + f' = s + f + length ms \<and>
     f' = f + length (warnings ev) \<and>
     progress_updates ev = map (\<lambda>i. (i + 1, total_n)) [k..<k + length ms] \<and>
     list_all (is_item_for list_uri) (create_calls ev) \<and>
     set (stamps ev) \<subseteq> range (\<lambda>h. created_at (now_utc e h)) \<and>
     (me c \<noteq> None \<longrightarrow> attempted_subjects ev = ms \<and> f' = f + length (failed_calls ev))"
proof (induction ms arbitrary: k s f tr)
  case Nil
  then show ?case by simp
next
  case (Cons m ms)
  then have nz: "total_n \<noteq> 0" by simp
  obtain s1 f1 ev1 where
    t: "try_add_member e c list_uri m (s, f, tr) = (s1, f1, tr @ ev1)"
    and sum1: "s1 + f1 = Suc (s + f)"
    and w1: "f1 = f + length (warnings ev1)"
    and p1: "progress_updates ev1 = []"
    and i1: "list_all (is_item_for list_uri) (create_calls ev1)"
    and c1: "set (stamps ev1) \<subseteq> range (\<lambda>h. created_at (now_utc e h))"
    and a1: "me c \<noteq> None \<longrightarrow> attempted_subjects ev1 = [m] \<and> f1 = f + length (failed_calls ev1)"
    using try_add_member_shape [of e c list_uri m s f tr] by blast
  let ?tr2 = "(tr @ ev1) @ [ProgressSet (k + 1) total_n (progress_text k total_n f1)]"
  from Cons.IH [of "Suc k" s1 f1 ?tr2] nz
  obtain s' f' ev where
    l: "add_members_loop e c list_uri total_n (enumerate (Suc k) ms) (s1, f1, ?tr2) =
        (Inr (s', f'), ?tr2 @ ev)"
    and sum2: "s' + f' = s1 + f1 + length ms"
    and w2: "f' = f1 + length (warnings ev)"
    and p2: "progress_updates ev = map (\<lambda>i. (i + 1, total_n)) [Suc k..<Suc k + length ms]"
    and i2: "list_all (is_item_for list_uri) (create_calls ev)"
    and c2: "set (stamps ev) \<subseteq> range (\<lambda>h. created_at (now_utc e h))"
    and a2: "me c \<noteq> None \<longrightarrow> attempted_subjects ev = ms \<and> f' = f1 + length (failed_calls ev)"
    by blast
  let ?ev = "ev1 @ [ProgressSet (k + 1) total_n (progress_text k total_n f1)] @ ev"
  have "add_members_loop e c list_uri total_n (enumerate k (m # ms)) (s, f, tr) =
        (Inr (s', f'), tr @ ?ev)"
    using t l nz by simp
  moreover have "s' + f' = s + f + length (m # ms)"
    using sum1 sum2 by simp
  moreover have "f' = f + length (warnings ?ev)"
    using w1 w2 by simp
  moreover have "progress_updates ?ev = map (\<lambda>i. (i + 1, total_n)) [k..<k + length (m # ms)]"
  proof -
    have "[k..<k + length (m # ms)] = k # [Suc k..<Suc k + length ms]"
      by (subst upt_rec) simp
    then show ?thesis using p1 p2 by simp
  qed
  moreover have "list_all (is_item_for list_uri) (create_calls ?ev)"
    using i1 i2 by simp
  moreover have "set (stamps ?ev) \<subseteq> range (\<lambda>h. created_at (now_utc e h))"
    using c1 c2 by simp
  moreover have "me c \<noteq> None \<longrightarrow>
      attempted_subjects ?ev = m # ms \<and> f' = f + length (failed_calls ?ev)"
    using a1 a2 by simp
  ultimately show ?case by blast
qed

lemma add_members_to_list_shape:
  "\<exists>s f ev.
     add_members_to_list e c list_uri members tr = (Inr (s, f), tr @ ev) \<and>
     s + f = length members \<and>
     f = length (warnings ev) \<and>
     progress_updates ev = map (\<lambda>i. (i + 1, length members)) [0..<length members] \<and>
     list_all (is_item_for list_uri) (create_calls ev) \<and>
     set (stamps ev) \<subseteq> range (\<lambda>h. created_at (now_utc e h)) \<and>
     (me c \<noteq> None \<longrightarrow> attempted_subjects ev = members \<and> f = length (failed_calls ev))"
proof -
  let ?n = "length members"
  let ?tr0 = "tr @ [ProgressOpen 0 (''Adding members (0/'' @ str_nat ?n @ '')...'')]"
  have "?n \<noteq> 0 \<or> members = []" by simp
  from add_members_loop_shape [OF this, of e c list_uri 0 0 0 ?tr0]
  obtain s f ev where
    l: "add_members_loop e c list_uri ?n (enumerate 0 members) (0, 0, ?tr0) =
        (Inr (s, f), ?tr0 @ ev)"
    and sum: "s + f = length members"
    and w: "f = length (warnings ev)"
    and p: "progress_updates ev = map (\<lambda>i. (i + 1, ?n)) [0..<?n]"
    and i: "list_all (is_item_for list_uri) (create_calls ev)"
    and st: "set (stamps ev) \<subseteq> range (\<lambda>h. created_at (now_utc e h))"
    and a: "me c \<noteq> None \<longrightarrow> attempted_subjects ev = members \<and> f = length (failed_calls ev)"
    by auto
  let ?ev = "[ProgressOpen 0 (''Adding members (0/'' @ str_nat ?n @ '')...'')] @ ev @
             [ProgressEmpty]"
  have "add_members_to_list e c list_uri members tr = (Inr (s, f), tr @ ?ev)"
    using l by (simp add: add_members_to_list_def Let_def)
  moreover have "f = length (warnings ?ev)"
    using w by simp
  moreover have "progress_updates ?ev = map (\<lambda>i. (i + 1, ?n)) [0..<?n]"
    using p by simp
  moreover have "list_all (is_item_for list_uri) (create_calls ?ev)"
    using i by simp
  moreover have "set (stamps ?ev) \<subseteq> range (\<lambda>h. created_at (now_utc e h))"
    using st by simp
  moreover have "me c \<noteq> None \<longrightarrow>
      attempted_subjects ?ev = members \<and> f = length (failed_calls ?ev)"
    using a by simp
  ultimately show ?thesis using sum by blast
qed

text \<open>
  The division of the \<^verbatim>\<open>finally\<close> block is in the model: a loop body run with a
  total of 0 leaves the function with \<^verbatim>\<open>ZeroDivisionError\<close>.
\<close>

lemma finally_divides_by_total:
  "fst (add_members_loop e c list_uri 0 ((i, m) # rest) st) = Inl ZeroDivisionError"
  by (simp split: prod.splits)

text \<open>
  C3. For every member list, client and service (whatever each create-record call
  returns or raises), \<open>add_members_to_list\<close> returns a pair of counts, and the two counts
  add up to the length of the member list.
\<close>

theorem add_members_to_list_counts_sum:
  "\<exists>success failed tr'.
     add_members_to_list e c list_uri members tr = (Inr (success, failed), tr') \<and>
     success + failed = length members"
  using add_members_to_list_shape [of e c list_uri members tr] by blast

theorem add_members_to_list_counts_sum_witness:
  "\<exists>tr'.
     add_members_to_list world bob_client ''at://new''
       [''did:plc:d1'', ''did:plc:d2'', ''did:plc:d3''] [] = (Inr (2, 1), tr') \<and>
     (2::nat) + 1 = length [''did:plc:d1'', ''did:plc:d2'', ''did:plc:d3'']"
proof -
  have r: "fst (add_members_to_list world bob_client ''at://new''
             [''did:plc:d1'', ''did:plc:d2'', ''did:plc:d3''] []) = Inr (2, 1)"
    by (simp add: add_members_to_list_def try_add_member_def Let_def world_def bob_client_def
        bob_def)
  from add_members_to_list_counts_sum
    [of world bob_client "''at://new''" "[''did:plc:d1'', ''did:plc:d2'', ''did:plc:d3'']" "[]"]
    r
  show ?thesis by auto
qed

text \<open>
  C4. \<open>add_members_to_list\<close> never raises: its result is a pair of counts. The failure
  count is the number of warnings it emitted. There is one progress update per member,
  numbered 1 to n. With a logged-in client, the membership records it sent are those of
  the input members, each once and in input order, whatever the earlier calls returned
  or raised, and the failure count is the number of calls that raised.
\<close>

theorem add_members_to_list_contains_failures:
  "\<exists>success failed ev.
     add_members_to_list e c list_uri members tr = (Inr (success, failed), tr @ ev) \<and>
     failed = length (warnings ev) \<and>
     progress_updates ev = map (\<lambda>i. (i + 1, length members)) [0..<length members] \<and>
     (me c \<noteq> None \<longrightarrow> attempted_subjects ev = members \<and> failed = length (failed_calls ev))"
  using add_members_to_list_shape [of e c list_uri members tr] by blast

theorem add_members_to_list_contains_failures_witness:
  "me bob_client \<noteq> None \<and>
   (\<exists>ev. add_members_to_list world bob_client ''at://new''
            [''did:plc:d1'', ''did:plc:d2'', ''did:plc:d3''] [] = (Inr (2, 1), ev) \<and>
         attempted_subjects ev = [''did:plc:d1'', ''did:plc:d2'', ''did:plc:d3''] \<and>
         map fst (failed_calls ev) =
           [\<lparr>repo = ''did:plc:bob'', collection = AppBskyGraphListitem,
             the_record = ListitemRecord
               \<lparr>item_subject = ''did:plc:d2'', item_list = ''at://new'',
                item_createdAt = created_at (now_utc world [])\<rparr>\<rparr>] \<and>
         length (warnings ev) = 1)"
proof -
  have h: "me bob_client \<noteq> None"
    by (simp add: bob_client_def)
  have n: "now_utc world = (\<lambda>tr. now_utc world [])"
    by (simp add: world_def)
  have r: "add_members_to_list world bob_client ''at://new''
             [''did:plc:d1'', ''did:plc:d2'', ''did:plc:d3''] [] =
           (Inr (2, 1), snd (add_members_to_list world bob_client ''at://new''
             [''did:plc:d1'', ''did:plc:d2'', ''did:plc:d3''] []))"
    by (simp add: add_members_to_list_def try_add_member_def Let_def world_def bob_client_def
        bob_def)
  have f: "map fst (failed_calls (snd (add_members_to_list world bob_client ''at://new''
             [''did:plc:d1'', ''did:plc:d2'', ''did:plc:d3''] []))) =
           [\<lparr>repo = ''did:plc:bob'', collection = AppBskyGraphListitem,
             the_record = ListitemRecord
               \<lparr>item_subject = ''did:plc:d2'', item_list = ''at://new'',
                item_createdAt = created_at (now_utc world [])\<rparr>\<rparr>]"
    by (simp add: add_members_to_list_def try_add_member_def Let_def world_def bob_client_def
        bob_def)
  from add_members_to_list_contains_failures
    [of world bob_client "''at://new''" "[''did:plc:d1'', ''did:plc:d2'', ''did:plc:d3'']" "[]"]
    h r f
  show ?thesis by auto
qed

text \<open>
  C10. Called with an empty member list, \<open>add_members_to_list\<close> returns \<open>(0, 0)\<close>; all it
  does is open the progress bar and clear it. It sends no record and runs no loop body,
  so the division by the total is not evaluated.
\<close>

theorem add_members_to_list_empty:
  "add_members_to_list e c list_uri [] tr =
     (Inr (0, 0), tr @ [ProgressOpen 0 ''Adding members (0/0)...'', ProgressEmpty])"
  by (simp add: add_members_to_list_def str_nat_0)

theorem add_members_to_list_empty_witness:
  "add_members_to_list world bob_client ''at://new'' [] [] =
     (Inr (0, 0), [ProgressOpen 0 ''Adding members (0/0)...'', ProgressEmpty]) \<and>
   create_calls (snd (add_members_to_list world bob_client ''at://new'' [] [])) = [] \<and>
   progress_updates (snd (add_members_to_list world bob_client ''at://new'' [] [])) = []"
  using add_members_to_list_empty [of world bob_client "''at://new''" "[]"]
  by simp

section \<open>The records sent\<close>

lemma create_new_list_rejected:
  "list_record_raises e (built_list_record n d p (created_at (now_utc e tr))) = Some ex \<Longrightarrow>
   create_new_list e c n d p tr = (None, tr @ [StError (create_error_message ex)])"
  by (cases "prefix ''app.bsky.graph.defs#'' p")
    (simp_all add: create_new_list_def built_list_record_def Let_def)

lemma create_new_list_logged_out:
  "list_record_raises e (built_list_record n d p (created_at (now_utc e tr))) = None \<Longrightarrow>
   me c = None \<Longrightarrow>
   create_new_list e c n d p tr = (None, tr @ [StError (create_error_message AttributeError_me)])"
  by (cases "prefix ''app.bsky.graph.defs#'' p")
    (simp_all add: create_new_list_def built_list_record_def Let_def)

lemma create_new_list_logged_in:
  "list_record_raises e (built_list_record n d p (created_at (now_utc e tr))) = None \<Longrightarrow>
   me c = Some prof \<Longrightarrow>
   create_new_list e c n d p tr =
     (let dat = \<lparr>repo = did prof, collection = AppBskyGraphList,
                 the_record = ListRecord
                   (built_list_record n d p (created_at (now_utc e tr)))\<rparr>
      in case create_record e tr dat of
           Inr resp \<Rightarrow>
             (Some (uri resp),
              tr @ [CreateRecordCall dat (Inr resp),
                    StSuccess (''Successfully created new list: '' @ uri resp)])
         | Inl ex \<Rightarrow>
             (None, tr @ [CreateRecordCall dat (Inl ex), StError (create_error_message ex)]))"
  by (cases "prefix ''app.bsky.graph.defs#'' p")
    (simp_all add: create_new_list_def built_list_record_def Let_def split: sum.splits)

text \<open>
  A list record is sent exactly when the constructor accepts the fields and the client
  is logged in; it is the record that was built.
\<close>

lemma create_new_list_shape:
  "\<exists>u ev. create_new_list e c n d p tr = (u, tr @ ev) \<and>
     set (stamps ev) \<subseteq> range (\<lambda>h. created_at (now_utc e h)) \<and>
     (list_record_raises e (built_list_record n d p (created_at (now_utc e tr))) = None \<and>
      me c \<noteq> None \<longrightarrow>
        stored_purposes ev =
          [if prefix ''app.bsky.graph.defs#'' p then p else ''app.bsky.graph.defs#'' @ p]) \<and>
     (list_record_raises e (built_list_record n d p (created_at (now_utc e tr))) \<noteq> None \<or>
      me c = None \<longrightarrow>
        stored_purposes ev = [] \<and> create_calls ev = [] \<and> u = None)"
proof (cases "list_record_raises e (built_list_record n d p (created_at (now_utc e tr)))")
  case (Some ex)
  then show ?thesis by (simp add: create_new_list_rejected)
next
  case accepted: None
  show ?thesis
  proof (cases "me c")
    case None
    with accepted show ?thesis by (simp add: create_new_list_logged_out)
  next
    case (Some prof)
    with accepted show ?thesis
      by (simp add: create_new_list_logged_in Let_def built_list_record_def split: sum.splits)
  qed
qed

text \<open>
  C5. Every list record that \<open>create_new_list\<close> sends has a purpose that starts with
  \<^verbatim>\<open>app.bsky.graph.defs#\<close>. The record it builds has, for the input \<^verbatim>\<open>curatelist\<close>,
  the purpose \<^verbatim>\<open>app.bsky.graph.defs#curatelist\<close>, for an input that starts with the prefix
  the input itself, and for any other input the prefix followed by the input. When the
  constructor accepts this record and the client is logged in, this record, and no
  other, is sent. When the constructor rejects it, or the client is not logged in,
  nothing is sent and the result is \<^verbatim>\<open>None\<close>.
\<close>

theorem create_new_list_namespaced_purpose:
  "\<exists>u ev. create_new_list e c n d p tr = (u, tr @ ev) \<and>
     (\<forall>q\<in>set (stored_purposes ev). prefix ''app.bsky.graph.defs#'' q) \<and>
     (list_record_raises e (built_list_record n d p (created_at (now_utc e tr))) = None \<and>
      me c \<noteq> None \<longrightarrow>
        (p = ''curatelist'' \<longrightarrow> stored_purposes ev = [''app.bsky.graph.defs#curatelist'']) \<and>
        (prefix ''app.bsky.graph.defs#'' p \<longrightarrow> stored_purposes ev = [p]) \<and>
        (\<not> prefix ''app.bsky.graph.defs#'' p \<longrightarrow>
           stored_purposes ev = [''app.bsky.graph.defs#'' @ p])) \<and>
     (list_record_raises e (built_list_record n d p (created_at (now_utc e tr))) \<noteq> None \<or>
      me c = None \<longrightarrow>
        stored_purposes ev = [] \<and> create_calls ev = [] \<and> u = None)"
proof -
  let ?rejected = "list_record_raises e (built_list_record n d p (created_at (now_utc e tr)))"
  from create_new_list_shape [of e c n d p tr] obtain u ev where
    r: "create_new_list e c n d p tr = (u, tr @ ev)"
    and sent: "?rejected = None \<and> me c \<noteq> None \<longrightarrow>
        stored_purposes ev =
          [if prefix ''app.bsky.graph.defs#'' p then p else ''app.bsky.graph.defs#'' @ p]"
    and none: "?rejected \<noteq> None \<or> me c = None \<longrightarrow>
        stored_purposes ev = [] \<and> create_calls ev = [] \<and> u = None"
    by (elim exE conjE) (rule that)
  have always: "\<forall>q\<in>set (stored_purposes ev). prefix ''app.bsky.graph.defs#'' q"
    using none sent by (cases "?rejected = None \<and> me c \<noteq> None") auto
  have accepted: "?rejected = None \<and> me c \<noteq> None \<longrightarrow>
        (p = ''curatelist'' \<longrightarrow> stored_purposes ev = [''app.bsky.graph.defs#curatelist'']) \<and>
        (prefix ''app.bsky.graph.defs#'' p \<longrightarrow> stored_purposes ev = [p]) \<and>
        (\<not> prefix ''app.bsky.graph.defs#'' p \<longrightarrow>
           stored_purposes ev = [''app.bsky.graph.defs#'' @ p])"
    using sent by auto
  from r always accepted none show ?thesis
    by (intro exI [of _ u] exI [of _ ev] conjI)
qed

theorem create_new_list_namespaced_purpose_witness:
  "list_record_raises world
     (built_list_record ''Copy'' [] ''curatelist'' (created_at (now_utc world []))) = None \<and>
   me bob_client \<noteq> None \<and>
   stored_purposes (snd (create_new_list world bob_client ''Copy'' [] ''curatelist'' [])) =
     [''app.bsky.graph.defs#curatelist''] \<and>
   list_record_raises world
     (built_list_record ''Copy'' [] ''app.bsky.graph.defs#modlist''
        (created_at (now_utc world []))) = None \<and>
   prefix ''app.bsky.graph.defs#'' ''app.bsky.graph.defs#modlist'' \<and>
   stored_purposes
     (snd (create_new_list world bob_client ''Copy'' [] ''app.bsky.graph.defs#modlist'' [])) =
     [''app.bsky.graph.defs#modlist''] \<and>
   list_record_raises world
     (built_list_record [] [] ''curatelist'' (created_at (now_utc world []))) \<noteq> None \<and>
   create_new_list world bob_client [] [] ''curatelist'' [] =
     (None, [StError (''An unexpected error occurred while creating the list: '' @
                      ''1 validation error for Record'')])"
proof -
  have h: "me bob_client \<noteq> None"
    by (simp add: bob_client_def)
  have a: "list_record_raises world (built_list_record ''Copy'' [] p s) = None" for p s
    by (simp add: world_def built_list_record_def)
  have b: "list_record_raises world (built_list_record [] [] p s) =
             Some (OtherException ''1 validation error for Record'')" for p s
    by (simp add: world_def built_list_record_def)
  have c: "create_new_list world bob_client [] [] ''curatelist'' [] =
     (None, [StError (''An unexpected error occurred while creating the list: '' @
                      ''1 validation error for Record'')])"
    using create_new_list_rejected [where e = world and n = "[]" and d = "[]" and
        p = "''curatelist''" and tr = "[]" and c = bob_client, OF b]
    by (simp add: create_error_message_def)
  from create_new_list_namespaced_purpose [of world bob_client "''Copy''" "[]" "''curatelist''" "[]"]
    create_new_list_namespaced_purpose
      [of world bob_client "''Copy''" "[]" "''app.bsky.graph.defs#modlist''" "[]"]
    h a b c
  show ?thesis by auto
qed

text \<open>
  The claim as the specification words it wants every timestamp in the subsecond-free
  form. \<^verbatim>\<open>isoformat()\<close> prints the microseconds whenever they are not 0: with the clock
  of \<open>world\<close>, which shows 123456 microseconds, both functions stamp
  \<^verbatim>\<open>2024-03-05T07:08:09.123456Z\<close>.
\<close>

theorem createdAt_subsecond_counterexample:
  "valid_datetime (now_utc world []) \<and>
   stamps (snd (create_new_list world bob_client ''Copy'' [] ''curatelist'' [])) =
     [''2024-03-05T07:08:09.123456Z''] \<and>
   stamps (snd (add_members_to_list world bob_client ''at://new'' [''did:plc:d1''] [])) =
     [''2024-03-05T07:08:09.123456Z''] \<and>
   \<not> seconds_form ''2024-03-05T07:08:09.123456Z''"
proof -
  have c: "created_at (now_utc world h) = ''2024-03-05T07:08:09.123456Z''" for h
    by (simp add: created_at_def isoformat_def world_def zero_pad_def str_nat.simps
        digit_char_def)
  have "valid_datetime (now_utc world [])"
    by (simp add: valid_datetime_def world_def)
  moreover have "stamps (snd (create_new_list world bob_client ''Copy'' [] ''curatelist'' [])) =
     [created_at (now_utc world [])]"
    by (simp add: create_new_list_def Let_def world_def bob_client_def)
  moreover have
    "stamps (snd (add_members_to_list world bob_client ''at://new'' [''did:plc:d1''] [])) =
     [created_at (now_utc world [ProgressOpen 0 (''Adding members (0/'' @ str_nat 1 @ '')...'')])]"
    by (simp add: add_members_to_list_def try_add_member_def Let_def world_def bob_client_def)
  moreover have "\<not> seconds_form ''2024-03-05T07:08:09.123456Z''"
    by (simp add: seconds_form_def)
  ultimately show ?thesis by (simp only: c) simp
qed

text \<open>
  C6 (as amended). When the clock shows valid dates, every \<open>createdAt\<close> that
  \<open>create_new_list\<close> and \<open>add_members_to_list\<close> put into a record is
  \<^verbatim>\<open>isoformat()\<close> of a clock reading with the offset replaced by \<^verbatim>\<open>Z\<close>: of the form
  \<^verbatim>\<open>YYYY-MM-DDTHH:MM:SSZ\<close> when the microsecond field of the reading is 0, and of the form
  \<^verbatim>\<open>YYYY-MM-DDTHH:MM:SS.ffffffZ\<close> otherwise. Both forms end in \<^verbatim>\<open>Z\<close> and have no
  \<^verbatim>\<open>+00:00\<close>.
\<close>

theorem createdAt_utc_z_form:
  assumes "\<forall>h. valid_datetime (now_utc e h)"
  shows "\<exists>u ev r ev'.
     create_new_list e c n d p tr = (u, tr @ ev) \<and>
     add_members_to_list e c' list_uri members tr' = (r, tr' @ ev') \<and>
     (\<forall>s\<in>set (stamps ev) \<union> set (stamps ev').
        \<exists>h. s = created_at (now_utc e h) \<and>
            (if microsecond (now_utc e h) = 0 then seconds_form s else micros_form s))"
proof -
  from create_new_list_shape [of e c n d p tr] obtain u ev where
    r1: "create_new_list e c n d p tr = (u, tr @ ev)"
    and s1: "set (stamps ev) \<subseteq> range (\<lambda>h. created_at (now_utc e h))"
    by blast
  from add_members_to_list_shape [of e c' list_uri members tr'] obtain s f ev' where
    r2: "add_members_to_list e c' list_uri members tr' = (Inr (s, f), tr' @ ev')"
    and s2: "set (stamps ev') \<subseteq> range (\<lambda>h. created_at (now_utc e h))"
    by blast
  have "\<exists>h. x = created_at (now_utc e h) \<and>
            (if microsecond (now_utc e h) = 0 then seconds_form x else micros_form x)"
    if "x \<in> set (stamps ev) \<union> set (stamps ev')" for x
  proof -
    from that s1 s2 obtain h where x: "x = created_at (now_utc e h)" by auto
    from assms have "valid_datetime (now_utc e h)" by simp
    from created_at_form [OF this] x show ?thesis by auto
  qed
  with r1 r2 show ?thesis by blast
qed

theorem createdAt_utc_z_form_witness:
  "(\<forall>h. valid_datetime (now_utc world h)) \<and>
   list_all micros_form
     (stamps (snd (create_new_list world bob_client ''Copy'' [] ''curatelist'' [])) @
      stamps (snd (add_members_to_list world bob_client ''at://new''
                     [''did:plc:d1'', ''did:plc:d2''] [])))"
proof -
  have h: "\<forall>h. valid_datetime (now_utc world h)"
    by (simp add: valid_datetime_def world_def)
  have m: "microsecond (now_utc world h) \<noteq> 0" for h
    by (simp add: world_def)
  from createdAt_utc_z_form
    [OF h, of bob_client "''Copy''" "[]" "''curatelist''" "[]" bob_client "''at://new''"
      "[''did:plc:d1'', ''did:plc:d2'']" "[]"]
  obtain u ev r ev' where
    a: "create_new_list world bob_client ''Copy'' [] ''curatelist'' [] = (u, [] @ ev)"
    and b: "add_members_to_list world bob_client ''at://new'' [''did:plc:d1'', ''did:plc:d2''] [] =
            (r, [] @ ev')"
    and c: "\<forall>s\<in>set (stamps ev) \<union> set (stamps ev').
              \<exists>h. s = created_at (now_utc world h) \<and>
                  (if microsecond (now_utc world h) = 0 then seconds_form s else micros_form s)"
    by (elim exE conjE) (rule that)
  have "micros_form s" if "s \<in> set (stamps ev) \<union> set (stamps ev')" for s
  proof -
    from c that obtain k where "s = created_at (now_utc world k)"
      and "if microsecond (now_utc world k) = 0 then seconds_form s else micros_form s"
      by blast
    with m [of k] show ?thesis by simp
  qed
  then have "list_all micros_form (stamps ev @ stamps ev')"
    by (simp add: list_all_iff)
  with a b h show ?thesis by simp
qed

section \<open>Runs of the handler\<close>

subsection \<open>The example worlds\<close>

lemma world_replies [simp]:
  "login world tr h pw =
     (if h = ''alice.example'' then Inr alice
      else if h = ''bob.example'' then Inr bob
      else Inl (AtProtocolError ''Invalid identifier or password''))"
  "create_record world tr d =
     (case the_record d of
        ListRecord l \<Rightarrow> Inr \<lparr>uri = ''at://did:plc:bob/app.bsky.graph.list/1''\<rparr>
      | ListitemRecord it \<Rightarrow>
          if item_subject it = ''did:plc:d2'' then Inl (AtProtocolError ''rate limit'')
          else Inr \<lparr>uri = ''at://did:plc:bob/app.bsky.graph.listitem/1''\<rparr>)"
  "get_list world tr q =
     (if q_cursor q = None then Inr (Some page1)
      else if q_cursor q = Some ''c1'' then Inr (Some page2)
      else Inl (AtProtocolError ''bad cursor''))"
  "list_record_raises world r =
     (if name r = [] \<or> 64 < length (name r)
      then Some (OtherException ''1 validation error for Record'') else None)"
  by (simp_all add: world_def)

lemma world_clock [simp]:
  "created_at (now_utc world tr) = ''2024-03-05T07:08:09.123456Z''"
  by (simp add: created_at_def isoformat_def world_def zero_pad_def str_nat.simps digit_char_def)

lemma other_worlds [simp]:
  "login dest_login_fails_world tr h pw =
     (if h = ''alice.example'' then Inr alice
      else Inl (AtProtocolError ''Invalid identifier or password''))"
  "get_list dest_login_fails_world = get_list world"
  "get_list empty_list_world tr q = Inr (Some \<lparr>items = [], cursor = None\<rparr>)"
  "login empty_list_world = login world"
  "create_record empty_list_world = create_record world"
  "now_utc empty_list_world = now_utc world"
  "list_record_raises empty_list_world = list_record_raises world"
  by (simp_all add: dest_login_fails_world_def empty_list_world_def)

lemma two_pages_fetched:
  assumes "get_list e = get_list world"
  shows "get_list_members e c list_uri tr =
     Some (Some [''did:plc:d1'', ''did:plc:d2'', ''did:plc:d3''],
           tr @ [GetListCall \<lparr>q_list = list_uri, q_limit = 100, q_cursor = None\<rparr>
                   (Inr (Some page1)),
                 Sleep 100,
                 GetListCall \<lparr>q_list = list_uri, q_limit = 100, q_cursor = Some ''c1''\<rparr>
                   (Inr (Some page2))])"
proof -
  let ?q0 = "\<lparr>q_list = list_uri, q_limit = 100, q_cursor = None\<rparr>"
  let ?q1 = "\<lparr>q_list = list_uri, q_limit = 100, q_cursor = Some ''c1''\<rparr>"
  have c1: "cursor page1 = Some ''c1''" by (simp add: page1_def)
  have "get_list_members_loop e list_uri None [] tr =
        get_list_members_loop e list_uri (cursor page1) ([] @ page_members page1)
          (tr @ [GetListCall ?q0 (Inr (Some page1)), Sleep 100])"
    by (rule loop_continue) (simp_all add: assms continues_def page1_def truthy_def)
  also have "\<dots> = Some (Inr (([] @ page_members page1) @ reply_members (Some page2)),
        (tr @ [GetListCall ?q0 (Inr (Some page1)), Sleep 100]) @
        [GetListCall ?q1 (Inr (Some page2))])"
    unfolding c1 by (rule loop_stop) (simp_all add: assms page2_def truthy_def)
  finally show ?thesis
    by (simp add: get_list_members_def page_members_def page1_def page2_def member_def)
qed

lemmas step_defs = migrate_def step_login_source_def step_fetch_members_def
  step_login_dest_def step_create_list_def step_add_members_def

lemma form_fields [simp]:
  "source_handle form = ''alice.example''" "source_password form = ''app-pw-a''"
  "source_list_uri form = ''at://did:plc:alice/app.bsky.graph.list/7''"
  "dest_handle form = ''bob.example''" "dest_password form = ''app-pw-b''"
  "dest_list_name form = ''Copy''" "dest_list_purpose form = ''curatelist''"
  "dest_list_desc form = []"
  by (simp_all add: form_def)

lemma dest_login_fails_run:
  "migrate dest_login_fails_world form [] = Some (Finished, dest_login_fails_trace)"
  by (simp add: step_defs two_pages_fetched Let_def dest_login_fails_trace_def
      logged_in_text_def login_error_B_def alice_def str_nat.simps digit_char_def)

lemma empty_list_run:
  "migrate empty_list_world form [] = Some (Finished, empty_list_trace)"
  by (simp add: step_defs get_list_members_empty_first_page Let_def empty_list_trace_def
      logged_in_text_def alice_def bob_def str_nat.simps digit_char_def create_new_list_def
      create_open_def nothing_to_add_def truthy_def AppBskyGraphList_def)

lemma world_run:
  "migrate world form [] = Some (Finished, world_trace)"
  by (simp add: step_defs two_pages_fetched Let_def world_trace_def
      logged_in_text_def alice_def bob_def str_nat.simps digit_char_def create_new_list_def
      create_open_def truthy_def AppBskyGraphList_def AppBskyGraphListitem_def
      add_members_to_list_def try_add_member_def progress_text_def add_warning_message_def
      listitem_call_def)

subsection \<open>The shapes of a run\<close>

text \<open>
  Every run of the handler that returns has one of eight shapes, by the stage at which
  it stops. Each shape records what the service answered at that stage. No exception
  leaves the handler.
\<close>

lemma migrate_run:
  assumes run: "migrate e inp tr = Some (out, tr')"
  obtains
    (invalid)
      "\<not> required_filled inp"
      "out = Finished" "tr' = tr @ [StError ''Please fill in all required fields.'']"
  | (source_login_failed) ex where
      "login e (tr @ source_login_open inp) (source_handle inp) (source_password inp) = Inl ex"
      "out = Finished" "tr' = tr @ source_login_events inp (Inl ex) @ [stopped]"
  | (fetch_failed) pa evf where
      "login e (tr @ source_login_open inp) (source_handle inp) (source_password inp) = Inr pa"
      "get_list_members e \<lparr>me = Some pa\<rparr> (source_list_uri inp)
         (tr @ source_login_events inp (Inr pa) @ [fetch_open inp]) =
       Some (None, (tr @ source_login_events inp (Inr pa) @ [fetch_open inp]) @ evf)"
      "out = Finished"
      "tr' = tr @ source_login_events inp (Inr pa) @ [fetch_open inp] @ evf @
             fetch_close None @ [stopped]"
  | (dest_login_failed) pa evf ms ex where
      "login e (tr @ source_login_open inp) (source_handle inp) (source_password inp) = Inr pa"
      "get_list_members e \<lparr>me = Some pa\<rparr> (source_list_uri inp)
         (tr @ source_login_events inp (Inr pa) @ [fetch_open inp]) =
       Some (Some ms, (tr @ source_login_events inp (Inr pa) @ [fetch_open inp]) @ evf)"
      "login e (tr @ source_login_events inp (Inr pa) @ [fetch_open inp] @ evf @
                fetch_close (Some ms) @ dest_login_open inp)
         (dest_handle inp) (dest_password inp) = Inl ex"
      "out = Finished"
      "tr' = tr @ source_login_events inp (Inr pa) @ [fetch_open inp] @ evf @
             fetch_close (Some ms) @ dest_login_events inp (Inl ex) @ [stopped]"
  | (record_rejected) pa evf ms pb ex where
      "login e (tr @ source_login_open inp) (source_handle inp) (source_password inp) = Inr pa"
      "get_list_members e \<lparr>me = Some pa\<rparr> (source_list_uri inp)
         (tr @ source_login_events inp (Inr pa) @ [fetch_open inp]) =
       Some (Some ms, (tr @ source_login_events inp (Inr pa) @ [fetch_open inp]) @ evf)"
      "login e (tr @ source_login_events inp (Inr pa) @ [fetch_open inp] @ evf @
                fetch_close (Some ms) @ dest_login_open inp)
         (dest_handle inp) (dest_password inp) = Inr pb"
      "out = Finished"
      "tr' = tr @ source_login_events inp (Inr pa) @ [fetch_open inp] @ evf @
             fetch_close (Some ms) @ dest_login_events inp (Inr pb) @
             create_rejected_events inp ex @ [stopped]"
  | (create_failed) pa evf ms pb stamp reply where
      "login e (tr @ source_login_open inp) (source_handle inp) (source_password inp) = Inr pa"
      "get_list_members e \<lparr>me = Some pa\<rparr> (source_list_uri inp)
         (tr @ source_login_events inp (Inr pa) @ [fetch_open inp]) =
       Some (Some ms, (tr @ source_login_events inp (Inr pa) @ [fetch_open inp]) @ evf)"
      "login e (tr @ source_login_events inp (Inr pa) @ [fetch_open inp] @ evf @
                fetch_close (Some ms) @ dest_login_open inp)
         (dest_handle inp) (dest_password inp) = Inr pb"
      "\<forall>resp. reply = Inr resp \<longrightarrow> uri resp = []"
      "out = Finished"
      "tr' = tr @ source_login_events inp (Inr pa) @ [fetch_open inp] @ evf @
             fetch_close (Some ms) @ dest_login_events inp (Inr pb) @
             create_events inp (list_data inp pb stamp) reply @ [stopped]"
  | (no_members) pa evf pb stamp resp where
      "login e (tr @ source_login_open inp) (source_handle inp) (source_password inp) = Inr pa"
      "get_list_members e \<lparr>me = Some pa\<rparr> (source_list_uri inp)
         (tr @ source_login_events inp (Inr pa) @ [fetch_open inp]) =
       Some (Some [], (tr @ source_login_events inp (Inr pa) @ [fetch_open inp]) @ evf)"
      "login e (tr @ source_login_events inp (Inr pa) @ [fetch_open inp] @ evf @
                fetch_close (Some []) @ dest_login_open inp)
         (dest_handle inp) (dest_password inp) = Inr pb"
      "uri resp \<noteq> []"
      "out = Finished"
      "tr' = tr @ source_login_events inp (Inr pa) @ [fetch_open inp] @ evf @
             fetch_close (Some []) @ dest_login_events inp (Inr pb) @
             create_events inp (list_data inp pb stamp) (Inr resp) @ [nothing_to_add]"
  | (added) pa evf ms pb stamp resp eva s f where
      "login e (tr @ source_login_open inp) (source_handle inp) (source_password inp) = Inr pa"
      "get_list_members e \<lparr>me = Some pa\<rparr> (source_list_uri inp)
         (tr @ source_login_events inp (Inr pa) @ [fetch_open inp]) =
       Some (Some ms, (tr @ source_login_events inp (Inr pa) @ [fetch_open inp]) @ evf)"
      "login e (tr @ source_login_events inp (Inr pa) @ [fetch_open inp] @ evf @
                fetch_close (Some ms) @ dest_login_open inp)
         (dest_handle inp) (dest_password inp) = Inr pb"
      "ms \<noteq> []" "uri resp \<noteq> []"
      "list_all (is_item_for (uri resp)) (create_calls eva)"
      "attempted_subjects eva = ms" "s + f = length ms"
      "out = Finished"
      "tr' = tr @ source_login_events inp (Inr pa) @ [fetch_open inp] @ evf @
             fetch_close (Some ms) @ dest_login_events inp (Inr pb) @
             create_events inp (list_data inp pb stamp) (Inr resp) @
             [add_open ms] @ eva @ [count_summary s f, StBalloons]"
proof (cases "required_filled inp")
  case False
  with run show thesis
    by (intro invalid) (auto simp: migrate_def required_filled_def)
next
  case True
  then have valid: "\<not> (source_handle inp = [] \<or> source_password inp = [] \<or>
      source_list_uri inp = [] \<or> dest_handle inp = [] \<or> dest_password inp = [] \<or>
      dest_list_name inp = [] \<or> dest_list_purpose inp = [])"
    by (simp add: required_filled_def)
  let ?r0 = "\<lparr>source_client = \<lparr>me = None\<rparr>, dest_client = \<lparr>me = None\<rparr>,
              members_to_add = None, new_list_uri = None, migration_ok = True\<rparr>"
  show thesis
  proof (cases "login e (tr @ source_login_open inp) (source_handle inp) (source_password inp)")
    case (Inl ex)
    then have s1: "step_login_source e inp (?r0, tr) =
        (?r0\<lparr>migration_ok := False\<rparr>, tr @ source_login_events inp (Inl ex))"
      by (simp add: step_login_source_def source_login_events_def source_login_open_def Let_def)
    from run valid show thesis
      by (intro source_login_failed [where ex = ex, OF Inl])
        (auto simp: migrate_def s1 step_fetch_members_def step_login_dest_def
          step_create_list_def step_add_members_def stopped_def)
  next
    case la: (Inr pa)
    let ?rA = "\<lparr>source_client = \<lparr>me = Some pa\<rparr>, dest_client = \<lparr>me = None\<rparr>,
                members_to_add = None, new_list_uri = None, migration_ok = True\<rparr>"
    let ?trA = "tr @ source_login_events inp (Inr pa)"
    from la have s1: "step_login_source e inp (?r0, tr) = (?rA, ?trA)"
      by (simp add: step_login_source_def source_login_events_def source_login_open_def Let_def)
    let ?trF0 = "tr @ source_login_events inp (Inr pa) @ [fetch_open inp]"
    show thesis
    proof (cases "get_list_members e \<lparr>me = Some pa\<rparr> (source_list_uri inp) ?trF0")
      case None
      with run valid show thesis
        by (simp add: migrate_def s1 step_fetch_members_def fetch_open_def)
    next
      case (Some fetched)
      obtain res trF where fetched: "fetched = (res, trF)" by (cases fetched)
      from get_list_members_events [OF Some [unfolded fetched]] obtain evf where
        trF: "trF = ?trF0 @ evf"
        by auto
      show thesis
      proof (cases res)
        case None
        let ?rF = "\<lparr>source_client = \<lparr>me = Some pa\<rparr>, dest_client = \<lparr>me = None\<rparr>,
                    members_to_add = None, new_list_uri = None, migration_ok = False\<rparr>"
        from Some fetched None trF have s2: "step_fetch_members e inp (?rA, ?trA) =
            Some (?rF, ?trF0 @ evf @ fetch_close None)"
          by (simp add: step_fetch_members_def fetch_open_def fetch_close_def)
        from Some fetched None trF have g: "get_list_members e \<lparr>me = Some pa\<rparr>
            (source_list_uri inp) ?trF0 = Some (None, ?trF0 @ evf)"
          by simp
        from run valid show thesis
          by (intro fetch_failed [where pa = pa and evf = evf, OF la g])
            (auto simp: migrate_def s1 s2 step_login_dest_def
              step_create_list_def step_add_members_def stopped_def)
      next
        case (Some ms)
        let ?rM = "\<lparr>source_client = \<lparr>me = Some pa\<rparr>, dest_client = \<lparr>me = None\<rparr>,
                    members_to_add = Some ms, new_list_uri = None, migration_ok = True\<rparr>"
        let ?trM = "tr @ source_login_events inp (Inr pa) @ [fetch_open inp] @ evf @
                    fetch_close (Some ms)"
        from \<open>get_list_members e \<lparr>me = Some pa\<rparr> (source_list_uri inp) ?trF0 = Some fetched\<close>
          fetched Some trF
        have g: "get_list_members e \<lparr>me = Some pa\<rparr> (source_list_uri inp) ?trF0 =
                   Some (Some ms, ?trF0 @ evf)"
          by simp
        then have s2: "step_fetch_members e inp (?rA, ?trA) = Some (?rM, ?trM)"
          by (simp add: step_fetch_members_def fetch_open_def fetch_close_def)
        show thesis
        proof (cases "login e (?trM @ dest_login_open inp) (dest_handle inp) (dest_password inp)")
          case lb: (Inl ex)
          then have s3: "step_login_dest e inp (?rM, ?trM) =
              (?rM\<lparr>migration_ok := False\<rparr>, ?trM @ dest_login_events inp (Inl ex))"
            by (simp add: step_login_dest_def dest_login_events_def dest_login_open_def Let_def)
          from lb have lb': "login e (tr @ source_login_events inp (Inr pa) @ [fetch_open inp] @
              evf @ fetch_close (Some ms) @ dest_login_open inp)
              (dest_handle inp) (dest_password inp) = Inl ex"
            by simp
          from run valid s1 s2 s3 show thesis
            by (intro dest_login_failed
                [where pa = pa and evf = evf and ms = ms and ex = ex, OF la g lb'])
              (auto simp: migrate_def step_create_list_def step_add_members_def stopped_def)
        next
          case lb: (Inr pb)
          let ?rB = "\<lparr>source_client = \<lparr>me = Some pa\<rparr>, dest_client = \<lparr>me = Some pb\<rparr>,
                      members_to_add = Some ms, new_list_uri = None, migration_ok = True\<rparr>"
          let ?trB = "?trM @ dest_login_events inp (Inr pb)"
          from lb have s3: "step_login_dest e inp (?rM, ?trM) = (?rB, ?trB)"
            by (simp add: step_login_dest_def dest_login_events_def dest_login_open_def Let_def)
          from lb have lb': "login e (tr @ source_login_events inp (Inr pa) @ [fetch_open inp] @
              evf @ fetch_close (Some ms) @ dest_login_open inp)
              (dest_handle inp) (dest_password inp) = Inr pb"
            by simp
          let ?stamp = "created_at (now_utc e (?trB @ [create_open inp]))"
          let ?built = "built_list_record (dest_list_name inp) (dest_list_desc inp)
                          (dest_list_purpose inp) ?stamp"
          show thesis
          proof (cases "list_record_raises e ?built")
            case (Some ex)
            from create_new_list_rejected [OF Some, of "\<lparr>me = Some pb\<rparr>"]
            have s4: "step_create_list e inp (?rB, ?trB) =
                (?rB\<lparr>new_list_uri := None, migration_ok := False\<rparr>,
                 ?trB @ create_rejected_events inp ex)"
              by (simp add: step_create_list_def create_rejected_events_def create_close_def
                  truthy_def create_open_def)
            from run valid s1 s2 s3 s4 show thesis
              by (intro record_rejected
                  [where pa = pa and evf = evf and ms = ms and pb = pb and ex = ex,
                    OF la g lb'])
                (auto simp: migrate_def step_add_members_def stopped_def)
          next
            case accepted: None
            let ?dat = "list_data inp pb ?stamp"
            let ?reply = "create_record e (?trB @ [create_open inp]) ?dat"
            have c: "create_new_list e \<lparr>me = Some pb\<rparr> (dest_list_name inp) (dest_list_desc inp)
                       (dest_list_purpose inp) (?trB @ [create_open inp]) =
                     (case ?reply of
                        Inr resp \<Rightarrow>
                          (Some (uri resp),
                           ?trB @ [create_open inp, CreateRecordCall ?dat (Inr resp),
                                   StSuccess (''Successfully created new list: '' @ uri resp)])
                      | Inl ex \<Rightarrow>
                          (None, ?trB @ [create_open inp, CreateRecordCall ?dat (Inl ex),
                                         StError (create_error_message ex)]))"
              using create_new_list_logged_in [OF accepted, of "\<lparr>me = Some pb\<rparr>" pb]
              by (simp add: Let_def list_data_def built_list_record_def split: sum.splits)
            have s4: "step_create_list e inp (?rB, ?trB) =
                (?rB\<lparr>new_list_uri := (case ?reply of Inr resp \<Rightarrow> Some (uri resp) | Inl ex \<Rightarrow> None),
                      migration_ok := (case ?reply of Inr resp \<Rightarrow> uri resp \<noteq> [] | Inl ex \<Rightarrow> False)\<rparr>,
                 ?trB @ create_events inp ?dat ?reply)"
              using c
              by (simp add: step_create_list_def create_events_def create_close_def truthy_def
                  create_open_def split: sum.splits)
            show thesis
            proof (cases "\<exists>resp. ?reply = Inr resp \<and> uri resp \<noteq> []")
              case False
              then have nr: "\<forall>resp. ?reply = Inr resp \<longrightarrow> uri resp = []" by blast
              from nr have ok: "(case ?reply of Inr resp \<Rightarrow> uri resp \<noteq> [] | Inl ex \<Rightarrow> False) = False"
                by (cases ?reply) auto
              from run valid s1 s2 s3 s4 ok show thesis
                by (intro create_failed
                    [where pa = pa and evf = evf and ms = ms and reply = ?reply and pb = pb and
                      stamp = ?stamp, OF la g lb' nr])
                  (auto simp: migrate_def step_add_members_def stopped_def)
            next
              case True
              then obtain resp where reply: "?reply = Inr resp" and u: "uri resp \<noteq> []"
                by blast
              let ?rC = "\<lparr>source_client = \<lparr>me = Some pa\<rparr>, dest_client = \<lparr>me = Some pb\<rparr>,
                          members_to_add = Some ms, new_list_uri = Some (uri resp),
                          migration_ok = True\<rparr>"
              let ?trC = "?trB @ create_events inp ?dat (Inr resp)"
              from s4 reply u have s4': "step_create_list e inp (?rB, ?trB) = (?rC, ?trC)"
                by simp
              show thesis
              proof (cases "ms = []")
                case True
                with run valid s1 s2 s3 s4' g lb' show thesis
                  by (intro no_members
                      [where pa = pa and evf = evf and resp = resp and pb = pb and
                        stamp = ?stamp, OF la _ _ u])
                    (auto simp: migrate_def step_add_members_def truthy_def nothing_to_add_def)
              next
                case False
                from add_members_to_list_shape
                  [of e "\<lparr>me = Some pb\<rparr>" "uri resp" ms "?trC @ [add_open ms]"]
                obtain s f eva where
                  a: "add_members_to_list e \<lparr>me = Some pb\<rparr> (uri resp) ms (?trC @ [add_open ms]) =
                      (Inr (s, f), (?trC @ [add_open ms]) @ eva)"
                  and sum: "s + f = length ms"
                  and items: "list_all (is_item_for (uri resp)) (create_calls eva)"
                  and att: "attempted_subjects eva = ms"
                  by auto
                from False u a have s5: "step_add_members e (?rC, ?trC) =
                    (Finished, ?rC, ?trC @ [add_open ms] @ eva @ [count_summary s f, StBalloons])"
                  by (simp add: step_add_members_def truthy_def add_open_def count_summary_def)
                from run valid s1 s2 s3 s4' s5 show thesis
                  by (intro added
                      [where pa = pa and evf = evf and ms = ms and resp = resp and eva = eva and
                        s = s and f = f and pb = pb and stamp = ?stamp,
                        OF la g lb' False u items att sum])
                    (auto simp: migrate_def)
              qed
            qed
          qed
        qed
      qed
    qed
  qed
qed

lemma stage_create_calls [simp]:
  "create_calls (source_login_events inp r) = []"
  "create_calls (dest_login_events inp r') = []"
  "create_calls (fetch_close res) = []"
  "create_calls (create_events inp dat reply) = [(dat, reply)]"
  "create_calls (create_rejected_events inp ex) = []"
  "sent_record (fetch_open inp) = []" "sent_record (add_open ms) = []"
  "sent_record (count_summary s f) = []" "sent_record stopped = []"
  "sent_record nothing_to_add = []"
  by (auto simp: source_login_events_def dest_login_events_def fetch_close_def
      create_events_def create_rejected_events_def create_close_def create_open_def fetch_open_def add_open_def
      count_summary_def stopped_def nothing_to_add_def split: sum.splits option.splits)

lemma stage_login_replies [simp]:
  "login_replies (source_login_events inp r) = [r]"
  "login_replies (dest_login_events inp r) = [r]"
  "login_replies (fetch_close res) = []"
  "login_replies (create_events inp dat reply) = []"
  "login_replies (create_rejected_events inp ex) = []"
  "login_of (fetch_open inp) = []" "login_of (add_open ms) = []"
  "login_of (count_summary s f) = []" "login_of stopped = []"
  "login_of nothing_to_add = []"
  by (auto simp: source_login_events_def dest_login_events_def fetch_close_def
      create_events_def create_rejected_events_def create_close_def create_open_def fetch_open_def add_open_def
      count_summary_def stopped_def nothing_to_add_def split: sum.splits option.splits)

lemma stage_fetch_calls [simp]:
  "fetch_calls (source_login_events inp r) = []"
  "fetch_calls (dest_login_events inp r') = []"
  "fetch_calls (fetch_close res) = []"
  "fetch_calls (create_events inp dat reply) = []"
  "fetch_calls (create_rejected_events inp ex) = []"
  "fetch_of (fetch_open inp) = []" "fetch_of stopped = []" "fetch_of nothing_to_add = []"
  by (auto simp: source_login_events_def dest_login_events_def fetch_close_def
      create_events_def create_rejected_events_def create_close_def create_open_def fetch_open_def
      stopped_def nothing_to_add_def split: sum.splits option.splits)

lemma stage_bars_opened [simp]:
  "bars_opened (source_login_events inp r) = []"
  "bars_opened (dest_login_events inp r') = []"
  "bars_opened (fetch_close res) = []"
  "bars_opened (create_events inp dat reply) = []"
  "bars_opened (create_rejected_events inp ex) = []"
  "bar_of (fetch_open inp) = []" "bar_of stopped = []" "bar_of nothing_to_add = []"
  by (auto simp: source_login_events_def dest_login_events_def fetch_close_def
      create_events_def create_rejected_events_def create_close_def create_open_def fetch_open_def
      stopped_def nothing_to_add_def split: sum.splits option.splits)

lemma stage_no_summary [simp]:
  "count_summary a f \<notin> set (source_login_events inp r)"
  "count_summary a f \<notin> set (dest_login_events inp r')"
  "count_summary a f \<notin> set (fetch_close res)"
  "count_summary a f \<notin> set (create_events inp dat reply)"
  "count_summary a f \<notin> set (create_rejected_events inp ex)"
  "count_summary a f \<noteq> fetch_open inp" "count_summary a f \<noteq> stopped"
  "count_summary a f \<noteq> nothing_to_add" "count_summary a f \<noteq> GetListCall q rp"
  by (auto simp: source_login_events_def dest_login_events_def fetch_close_def
      create_events_def create_rejected_events_def create_close_def create_open_def fetch_open_def count_summary_def
      stopped_def nothing_to_add_def split: sum.splits option.splits)

lemma list_data_is_list [simp]:
  "subject_of (the_record (list_data inp pb stamp)) = []"
  by (simp add: list_data_def)

lemma stage_last [simp]:
  "fetch_close res \<noteq> []" "source_login_events inp r \<noteq> []" "dest_login_events inp r \<noteq> []"
  "create_events inp dat reply \<noteq> []" "create_rejected_events inp ex \<noteq> []"
  by (simp_all add: fetch_close_def source_login_events_def dest_login_events_def
      create_events_def create_rejected_events_def split: option.splits)

lemma list_created_simps [simp]:
  "list_created [] = False"
  "list_created (a @ b) = (list_created a \<or> list_created b)"
  "sent_record x = [] \<Longrightarrow> list_created (x # tr) = list_created tr"
  "create_calls ev = [] \<Longrightarrow> list_created ev = False"
  "list_created (create_events inp (list_data inp pb stamp) reply) =
     (case reply of Inr resp \<Rightarrow> uri resp \<noteq> [] | Inl ex \<Rightarrow> False)"
  by (simp_all add: list_created_def list_data_def split: sum.splits)

text \<open>
  A run that does not return has logged in to the source account and is in
  \<open>get_list_members\<close>, whose loop sends requests for pages and nothing else.
\<close>

lemma migrate_no_return:
  assumes "migrate e inp tr = None"
  shows "\<exists>pa. login e (tr @ source_login_open inp) (source_handle inp) (source_password inp) =
                Inr pa \<and>
              get_list_members e \<lparr>me = Some pa\<rparr> (source_list_uri inp)
                (tr @ source_login_events inp (Inr pa) @ [fetch_open inp]) = None"
proof -
  from assms have valid: "\<not> (source_handle inp = [] \<or> source_password inp = [] \<or>
      source_list_uri inp = [] \<or> dest_handle inp = [] \<or> dest_password inp = [] \<or>
      dest_list_name inp = [] \<or> dest_list_purpose inp = [])"
    by (auto simp: migrate_def)
  with assms have f: "step_fetch_members e inp (step_login_source e inp
      (\<lparr>source_client = \<lparr>me = None\<rparr>, dest_client = \<lparr>me = None\<rparr>,
        members_to_add = None, new_list_uri = None, migration_ok = True\<rparr>, tr)) = None"
    by (auto simp: migrate_def split: option.splits prod.splits outcome.splits if_splits)
  show ?thesis
  proof (cases "login e (tr @ source_login_open inp) (source_handle inp) (source_password inp)")
    case (Inl ex)
    with f show ?thesis
      by (simp add: step_login_source_def step_fetch_members_def source_login_open_def Let_def)
  next
    case (Inr pa)
    with f show ?thesis
      by (intro exI [of _ pa])
        (auto simp: step_login_source_def step_fetch_members_def source_login_events_def
          source_login_open_def fetch_open_def Let_def split: option.splits prod.splits)
  qed
qed

text \<open>The handler returns whenever the listing of the source members returns.\<close>

lemma migrate_returns:
  assumes "login e (tr @ source_login_open inp) (source_handle inp) (source_password inp) =
             Inr pa"
    and "get_list_members e \<lparr>me = Some pa\<rparr> (source_list_uri inp)
           (tr @ source_login_events inp (Inr pa) @ [fetch_open inp]) = Some fetched"
  shows "\<exists>out tr'. migrate e inp tr = Some (out, tr')"
proof (cases "migrate e inp tr")
  case None
  from migrate_no_return [OF None] assms show ?thesis by auto
next
  case (Some r)
  then show ?thesis by (cases r) simp
qed

text \<open>
  C7. In every run that returns: if a membership record was sent at all, then the first
  create-record call of the run sent the list record, the service answered it with a
  non-empty URI, and every later create-record call sent a membership record of the list
  with that URI. (A run that does not return never leaves the listing of the source
  members, by \<open>migrate_no_return\<close>.)
\<close>

theorem list_created_before_members:
  assumes "migrate e inp tr = Some (out, tr')"
  shows "\<exists>ev. tr' = tr @ ev \<and>
     (attempted_subjects ev \<noteq> [] \<longrightarrow>
        (\<exists>dat resp rest.
           create_calls ev = (dat, Inr resp) # rest \<and> is_list_creation (dat, Inr resp) \<and>
           uri resp \<noteq> [] \<and> list_all (is_item_for (uri resp)) rest))"
  using assms
proof (cases rule: migrate_run)
  case invalid
  then show ?thesis by simp
next
  case (source_login_failed ex)
  then show ?thesis by (simp add: attempted_subjects_def)
next
  case (fetch_failed pa evf)
  from get_list_members_events [OF fetch_failed(2)] have "create_calls evf = []"
    using fetch_events_observed(1) by auto
  with fetch_failed show ?thesis by (simp add: attempted_subjects_def)
next
  case (dest_login_failed pa evf ms ex)
  from get_list_members_events [OF dest_login_failed(2)] have "create_calls evf = []"
    using fetch_events_observed(1) by auto
  with dest_login_failed show ?thesis by (simp add: attempted_subjects_def)
next
  case (record_rejected pa evf ms pb ex)
  from get_list_members_events [OF record_rejected(2)] have "create_calls evf = []"
    using fetch_events_observed(1) by auto
  with record_rejected show ?thesis by (simp add: attempted_subjects_def)
next
  case (create_failed pa evf ms pb stamp reply)
  from get_list_members_events [OF create_failed(2)] have "create_calls evf = []"
    using fetch_events_observed(1) by auto
  with create_failed show ?thesis by (simp add: attempted_subjects_def)
next
  case (no_members pa evf pb stamp resp)
  from get_list_members_events [OF no_members(2)] have "create_calls evf = []"
    using fetch_events_observed(1) by auto
  with no_members show ?thesis by (simp add: attempted_subjects_def)
next
  case (added pa evf ms pb stamp resp eva s f)
  from get_list_members_events [OF added(2)] have "create_calls evf = []"
    using fetch_events_observed(1) by auto
  with added have cc: "create_calls (source_login_events inp (Inr pa) @ [fetch_open inp] @ evf @
             fetch_close (Some ms) @ dest_login_events inp (Inr pb) @
             create_events inp (list_data inp pb stamp) (Inr resp) @
             [add_open ms] @ eva @ [count_summary s f, StBalloons]) =
        (list_data inp pb stamp, Inr resp) # create_calls eva"
    by simp
  moreover have "is_list_creation (list_data inp pb stamp, Inr resp)"
    by (simp add: list_data_def)
  ultimately show ?thesis
    using added by (intro exI conjI impI) (assumption | simp)+
qed

theorem list_created_before_members_witness:
  "migrate world form [] = Some (Finished, world_trace) \<and>
   attempted_subjects world_trace = [''did:plc:d1'', ''did:plc:d2'', ''did:plc:d3''] \<and>
   (\<exists>dat rest.
      create_calls world_trace =
        (dat, Inr \<lparr>uri = ''at://did:plc:bob/app.bsky.graph.list/1''\<rparr>) # rest \<and>
      is_list_creation (dat, Inr \<lparr>uri = ''at://did:plc:bob/app.bsky.graph.list/1''\<rparr>) \<and>
      list_all (is_item_for ''at://did:plc:bob/app.bsky.graph.list/1'') rest)"
proof -
  have att: "attempted_subjects world_trace = [''did:plc:d1'', ''did:plc:d2'', ''did:plc:d3'']"
    by (simp add: world_trace_def listitem_call_def create_open_def)
  have first: "map snd (take 1 (create_calls world_trace)) =
                 [Inr \<lparr>uri = ''at://did:plc:bob/app.bsky.graph.list/1''\<rparr>]"
    by (simp add: world_trace_def listitem_call_def create_open_def)
  from list_created_before_members [OF world_run] att
  obtain dat resp rest where
    c: "create_calls world_trace = (dat, Inr resp) # rest"
    and l: "is_list_creation (dat, Inr resp)"
    and i: "list_all (is_item_for (uri resp)) rest"
    by auto
  from c first have "resp = \<lparr>uri = ''at://did:plc:bob/app.bsky.graph.list/1''\<rparr>"
    by simp
  with c l i world_run att show ?thesis by auto
qed

text \<open>
  The claim as the specification words it has the failure reported under the label
  \<^verbatim>\<open>Destination Account login\<close>. The program has no such text: in the run of
  \<open>dest_login_fails_world\<close>, where the source login succeeds and the destination login is
  rejected, no text shown to the operator contains it. The stage is shown as
  \<^verbatim>\<open>Logging into Destination Account (Account B)...\<close> and the failure as
  \<^verbatim>\<open>Login failed for Account B: ...\<close>.
\<close>

theorem dest_login_label_counterexample:
  "migrate dest_login_fails_world form [] = Some (Finished, dest_login_fails_trace) \<and>
   login_replies dest_login_fails_trace =
     [Inr alice, Inl (AtProtocolError ''Invalid identifier or password'')] \<and>
   filter (shows_text ''Destination Account login'') dest_login_fails_trace = []"
proof -
  have "login_replies dest_login_fails_trace =
     [Inr alice, Inl (AtProtocolError ''Invalid identifier or password'')]"
    by (simp add: dest_login_fails_trace_def)
  moreover have "filter (shows_text ''Destination Account login'') dest_login_fails_trace = []"
    by (simp add: dest_login_fails_trace_def shows_text_def)
  ultimately show ?thesis using dest_login_fails_run by simp
qed


text \<open>
  C8 (as amended). Take a run with the required fields filled in, whose source login
  succeeds and whose listing of the source members returns a list, and let the
  destination login raise \<open>ex\<close>. Then the handler returns; no create-record call is made,
  neither for the list nor for a member, and no progress bar is opened; and the run ends
  with the status block \<^verbatim>\<open>Logging into Destination Account (Account B)...\<close>, the failed
  login call, the error message for Account B with the text of \<open>ex\<close>, the status label
  \<^verbatim>\<open>Login Failed!\<close> and the error \<^verbatim>\<open>Migration process stopped due to errors.\<close>
\<close>

theorem dest_login_failure_stops_run:
  assumes "required_filled inp"
    and "login e (tr @ source_login_open inp) (source_handle inp) (source_password inp) = Inr pa"
    and "get_list_members e \<lparr>me = Some pa\<rparr> (source_list_uri inp)
           (tr @ source_login_events inp (Inr pa) @ [fetch_open inp]) = Some (Some ms, trF)"
    and "login e (trF @ fetch_close (Some ms) @ dest_login_open inp)
           (dest_handle inp) (dest_password inp) = Inl ex"
  shows "\<exists>ev. migrate e inp tr = Some (Finished, tr @ ev) \<and>
     create_calls ev = [] \<and> bars_opened ev = [] \<and>
     login_replies ev = [Inr pa, Inl ex] \<and>
     (\<exists>pre. ev = pre @
        [StatusOpen ''Logging into Destination Account (Account B)...'',
         StWrite (''Attempting login for '' @ dest_handle inp @ ''...''),
         LoginCall (dest_handle inp) (dest_password inp) (Inl ex),
         StError (login_error_B ex),
         StatusUpdate ''Login Failed!'' ''error'' True,
         StError ''Migration process stopped due to errors.''])"
proof -
  from migrate_returns [OF assms(2,3)] obtain out tr' where
    run: "migrate e inp tr = Some (out, tr')"
    by blast
  from run show ?thesis
  proof (cases rule: migrate_run)
    case invalid
    with assms(1) show ?thesis by simp
  next
    case (source_login_failed ex')
    with assms(2) show ?thesis by simp
  next
    case (fetch_failed pa' evf)
    with assms(2,3) show ?thesis by simp
  next
    case (dest_login_failed pa' evf ms' ex')
    from dest_login_failed(1) assms(2) have pa: "pa' = pa" by simp
    from dest_login_failed(2) assms(3) pa
    have ms: "ms' = ms"
      and trF: "trF = (tr @ source_login_events inp (Inr pa) @ [fetch_open inp]) @ evf"
      by simp_all
    from dest_login_failed(3) assms(4) pa ms trF have ex: "ex' = ex" by simp
    from get_list_members_events [OF dest_login_failed(2)]
    have l: "login_replies evf = []" and c: "create_calls evf = []" and b: "bars_opened evf = []"
      using fetch_events_observed(1,2,3) by auto
    let ?pre = "source_login_events inp (Inr pa) @ [fetch_open inp] @ evf @ fetch_close (Some ms)"
    let ?ev = "?pre @
        [StatusOpen ''Logging into Destination Account (Account B)...'',
         StWrite (''Attempting login for '' @ dest_handle inp @ ''...''),
         LoginCall (dest_handle inp) (dest_password inp) (Inl ex),
         StError (login_error_B ex),
         StatusUpdate ''Login Failed!'' ''error'' True,
         StError ''Migration process stopped due to errors.'']"
    from run dest_login_failed(4,5) pa ms ex
    have "migrate e inp tr = Some (Finished, tr @ ?ev)"
      by (simp add: dest_login_events_def stopped_def)
    moreover from l c b have "create_calls ?ev = []" "bars_opened ?ev = []"
      "login_replies ?ev = [Inr pa, Inl ex]"
      by simp_all
    ultimately show ?thesis by blast
  next
    case (record_rejected pa' evf ms' pb ex')
    from record_rejected(1) assms(2) have pa: "pa' = pa" by simp
    from record_rejected(2) assms(3) pa
    have "ms' = ms" "trF = (tr @ source_login_events inp (Inr pa) @ [fetch_open inp]) @ evf"
      by simp_all
    with record_rejected(3) assms(4) pa show ?thesis by simp
  next
    case (create_failed pa' evf ms' pb stamp reply)
    from create_failed(1) assms(2) have pa: "pa' = pa" by simp
    from create_failed(2) assms(3) pa
    have "ms' = ms" "trF = (tr @ source_login_events inp (Inr pa) @ [fetch_open inp]) @ evf"
      by simp_all
    with create_failed(3) assms(4) pa show ?thesis by simp
  next
    case (no_members pa' evf pb stamp resp)
    from no_members(1) assms(2) have pa: "pa' = pa" by simp
    from no_members(2) assms(3) pa
    have "ms = []" "trF = (tr @ source_login_events inp (Inr pa) @ [fetch_open inp]) @ evf"
      by simp_all
    with no_members(3) assms(4) pa show ?thesis by simp
  next
    case (added pa' evf ms' pb stamp resp eva s f)
    from added(1) assms(2) have pa: "pa' = pa" by simp
    from added(2) assms(3) pa
    have "ms' = ms" "trF = (tr @ source_login_events inp (Inr pa) @ [fetch_open inp]) @ evf"
      by simp_all
    with added(3) assms(4) pa show ?thesis by simp
  qed
qed

theorem dest_login_failure_stops_run_witness:
  "required_filled form \<and>
   login dest_login_fails_world ([] @ source_login_open form)
     (source_handle form) (source_password form) = Inr alice \<and>
   get_list_members dest_login_fails_world \<lparr>me = Some alice\<rparr> (source_list_uri form)
     ([] @ source_login_events form (Inr alice) @ [fetch_open form]) =
     Some (Some [''did:plc:d1'', ''did:plc:d2'', ''did:plc:d3''], take 9 dest_login_fails_trace) \<and>
   login dest_login_fails_world
     (take 9 dest_login_fails_trace @
      fetch_close (Some [''did:plc:d1'', ''did:plc:d2'', ''did:plc:d3'']) @ dest_login_open form)
     (dest_handle form) (dest_password form) =
     Inl (AtProtocolError ''Invalid identifier or password'') \<and>
   migrate dest_login_fails_world form [] = Some (Finished, dest_login_fails_trace) \<and>
   create_calls dest_login_fails_trace = [] \<and>
   login_replies dest_login_fails_trace =
     [Inr alice, Inl (AtProtocolError ''Invalid identifier or password'')] \<and>
   drop 11 dest_login_fails_trace =
     [StatusOpen ''Logging into Destination Account (Account B)...'',
      StWrite ''Attempting login for bob.example...'',
      LoginCall ''bob.example'' ''app-pw-b''
        (Inl (AtProtocolError ''Invalid identifier or password'')),
      StError ''Login failed for Account B: Invalid identifier or password'',
      StatusUpdate ''Login Failed!'' ''error'' True,
      StError ''Migration process stopped due to errors.'']"
proof -
  have h1: "required_filled form"
    by (simp add: required_filled_def)
  have h2: "login dest_login_fails_world ([] @ source_login_open form)
     (source_handle form) (source_password form) = Inr alice"
    by simp
  have h3: "get_list_members dest_login_fails_world \<lparr>me = Some alice\<rparr> (source_list_uri form)
     ([] @ source_login_events form (Inr alice) @ [fetch_open form]) =
     Some (Some [''did:plc:d1'', ''did:plc:d2'', ''did:plc:d3''], take 9 dest_login_fails_trace)"
    by (simp add: two_pages_fetched dest_login_fails_trace_def source_login_events_def
        fetch_open_def logged_in_text_def alice_def)
  have h4: "login dest_login_fails_world
     (take 9 dest_login_fails_trace @
      fetch_close (Some [''did:plc:d1'', ''did:plc:d2'', ''did:plc:d3'']) @ dest_login_open form)
     (dest_handle form) (dest_password form) =
     Inl (AtProtocolError ''Invalid identifier or password'')"
    by simp
  have d: "drop 11 dest_login_fails_trace =
     [StatusOpen ''Logging into Destination Account (Account B)...'',
      StWrite ''Attempting login for bob.example...'',
      LoginCall ''bob.example'' ''app-pw-b''
        (Inl (AtProtocolError ''Invalid identifier or password'')),
      StError ''Login failed for Account B: Invalid identifier or password'',
      StatusUpdate ''Login Failed!'' ''error'' True,
      StError ''Migration process stopped due to errors.'']"
    by (simp add: dest_login_fails_trace_def)
  from dest_login_failure_stops_run [OF h1 h2 h3 h4] obtain ev where
    "migrate dest_login_fails_world form [] = Some (Finished, [] @ ev)"
    and "create_calls ev = []"
    and "login_replies ev = [Inr alice, Inl (AtProtocolError ''Invalid identifier or password'')]"
    by blast
  with dest_login_fails_run h1 h2 h3 h4 d show ?thesis by simp
qed

text \<open>
  The claim as the specification words it has the final summary report 0 found, 0 added
  and 0 failed. In the run of \<open>empty_list_world\<close>, where the first page has no items and
  everything else succeeds, the program reports \<^verbatim>\<open>Found 0 members in the source list.\<close>
  and ends with the warning that there is nothing to add: the message with the added and
  failed counts is not among its events, and no text shown to the operator mentions
  \<^verbatim>\<open>added\<close> or \<^verbatim>\<open>ailed\<close>.
\<close>

theorem empty_list_summary_counterexample:
  "migrate empty_list_world form [] = Some (Finished, empty_list_trace) \<and>
   map snd (fetch_calls empty_list_trace) = [Inr (Some \<lparr>items = [], cursor = None\<rparr>)] \<and>
   count_summary 0 0 \<notin> set empty_list_trace \<and>
   filter (shows_text ''added'') empty_list_trace = [] \<and>
   filter (shows_text ''ailed'') empty_list_trace = [] \<and>
   last empty_list_trace = nothing_to_add"
proof -
  have "map snd (fetch_calls empty_list_trace) = [Inr (Some \<lparr>items = [], cursor = None\<rparr>)]"
    by (simp add: empty_list_trace_def create_open_def nothing_to_add_def)
  moreover have "count_summary 0 0 \<notin> set empty_list_trace"
    by (simp add: empty_list_trace_def create_open_def nothing_to_add_def count_summary_def)
  moreover have "filter (shows_text ''added'') empty_list_trace = []"
    by (simp add: empty_list_trace_def create_open_def nothing_to_add_def shows_text_def
        apostrophe_def)
  moreover have "filter (shows_text ''ailed'') empty_list_trace = []"
    by (simp add: empty_list_trace_def create_open_def nothing_to_add_def shows_text_def
        apostrophe_def)
  moreover have "last empty_list_trace = nothing_to_add"
    by (simp add: empty_list_trace_def)
  ultimately show ?thesis using empty_list_run by simp
qed


text \<open>
  C9 (as amended). Take a run with the required fields filled in, whose source login
  succeeds and whose first page has no items. Then the handler returns; that page is
  the only one requested; the call of \<open>get_list_members\<close> in the run returns the empty
  list; the run reports \<^verbatim>\<open>Found 0 members in the source list.\<close>;
  \<open>add_members_to_list\<close> is not invoked (no progress bar is opened and no membership
  record is sent); and no message with added and failed counts is shown. When the
  destination list was created (the destination login succeeded and the create call was
  answered with a non-empty URI), the last event is the warning that there is nothing to
  add; in every other case it is the error that the migration stopped.
\<close>

theorem empty_source_list_run:
  assumes "required_filled inp"
    and "login e (tr @ source_login_open inp) (source_handle inp) (source_password inp) = Inr pa"
    and "get_list e (tr @ source_login_events inp (Inr pa) @ [fetch_open inp])
           \<lparr>q_list = source_list_uri inp, q_limit = 100, q_cursor = None\<rparr> = Inr (Some p)"
    and "items p = []"
  shows "\<exists>ev. migrate e inp tr = Some (Finished, tr @ ev) \<and>
     get_list_members e \<lparr>me = Some pa\<rparr> (source_list_uri inp)
       (tr @ source_login_events inp (Inr pa) @ [fetch_open inp]) =
       Some (Some [], tr @ source_login_events inp (Inr pa) @ [fetch_open inp] @
              [GetListCall \<lparr>q_list = source_list_uri inp, q_limit = 100, q_cursor = None\<rparr>
                 (Inr (Some p))]) \<and>
     fetch_calls ev =
       [(\<lparr>q_list = source_list_uri inp, q_limit = 100, q_cursor = None\<rparr>, Inr (Some p))] \<and>
     StWrite ''Found 0 members in the source list.'' \<in> set ev \<and>
     bars_opened ev = [] \<and> attempted_subjects ev = [] \<and>
     (\<forall>a f. count_summary a f \<notin> set ev) \<and>
     (list_created ev \<longrightarrow>
        last ev = nothing_to_add \<and> (\<exists>pb. login_replies ev = [Inr pa, Inr pb])) \<and>
     (\<not> list_created ev \<longrightarrow> last ev = stopped)"
proof -
  let ?q0 = "\<lparr>q_list = source_list_uri inp, q_limit = 100, q_cursor = None\<rparr>"
  let ?trF0 = "tr @ source_login_events inp (Inr pa) @ [fetch_open inp]"
  let ?head = "source_login_events inp (Inr pa) @ [fetch_open inp] @
               [GetListCall ?q0 (Inr (Some p))] @ fetch_close (Some [])"
  have g0: "get_list_members e \<lparr>me = Some pa\<rparr> (source_list_uri inp) ?trF0 =
              Some (Some [], ?trF0 @ [GetListCall ?q0 (Inr (Some p))])"
    using get_list_members_empty_first_page [OF assms(3,4)] by simp
  have g0': "get_list_members e \<lparr>me = Some pa\<rparr> (source_list_uri inp) ?trF0 =
       Some (Some [], tr @ source_login_events inp (Inr pa) @ [fetch_open inp] @
              [GetListCall ?q0 (Inr (Some p))])"
    using g0 by simp
  have found: "fetch_close (Some []) =
      [StWrite ''Found 0 members in the source list.'',
       StatusUpdate ''Fetched Members Successfully!'' ''complete'' False]"
    by (simp add: fetch_close_def str_nat_0)
  have shown: "StWrite ''Found 0 members in the source list.'' \<in> set ?head"
    by (simp add: found)
  have head: "fetch_calls ?head = [(?q0, Inr (Some p))]"
    "bars_opened ?head = []" "create_calls ?head = []"
    "\<forall>a f. count_summary a f \<notin> set ?head"
    "login_replies ?head = [Inr pa]"
    by simp_all
  have result: ?thesis
    if run: "migrate e inp tr = Some (Finished, tr @ ?head @ rest)"
      and f: "fetch_calls rest = []" and b: "bars_opened rest = []"
      and a: "attempted_subjects rest = []"
      and s: "\<forall>a f. count_summary a f \<notin> set rest"
      and n: "rest \<noteq> []"
      and yes: "list_created rest \<longrightarrow>
                  last rest = nothing_to_add \<and> (\<exists>pb. login_replies rest = [Inr pb])"
      and no: "\<not> list_created rest \<longrightarrow> last rest = stopped"
    for rest
  proof -
    have "fetch_calls (?head @ rest) = [(?q0, Inr (Some p))]"
      using head(1) f by simp
    moreover have "StWrite ''Found 0 members in the source list.'' \<in> set (?head @ rest)"
      using shown by auto
    moreover have "bars_opened (?head @ rest) = []"
      using head(2) b by simp
    moreover have "attempted_subjects (?head @ rest) = []"
      using head(3) a by (simp add: attempted_subjects_def)
    moreover have "\<forall>a f. count_summary a f \<notin> set (?head @ rest)"
      using head(4) s by simp
    moreover have "list_created (?head @ rest) = list_created rest"
      using head(3) by simp
    moreover have "last (?head @ rest) = last rest"
      using n by simp
    moreover have "login_replies (?head @ rest) = Inr pa # login_replies rest"
      using head(5) by simp
    ultimately show ?thesis
      using run g0' yes no by (intro exI [of _ "?head @ rest"]) auto
  qed
  from migrate_returns [OF assms(2) g0] obtain out tr' where
    run: "migrate e inp tr = Some (out, tr')"
    by blast
  from run show ?thesis
  proof (cases rule: migrate_run)
    case invalid
    with assms(1) show ?thesis by simp
  next
    case (source_login_failed ex)
    with assms(2) show ?thesis by simp
  next
    case (fetch_failed pa' evf)
    with assms(2) g0 show ?thesis by simp
  next
    case (dest_login_failed pa' evf ms ex)
    from dest_login_failed(1) assms(2) have pa: "pa' = pa" by simp
    from dest_login_failed(2) g0 pa
    have ms: "ms = []" and evf: "evf = [GetListCall ?q0 (Inr (Some p))]"
      by simp_all
    show ?thesis
    proof (rule result [of "dest_login_events inp (Inl ex) @ [stopped]"])
      from run dest_login_failed(4,5) pa ms evf
      show "migrate e inp tr =
          Some (Finished, tr @ ?head @ dest_login_events inp (Inl ex) @ [stopped])"
        by simp
    qed (simp_all add: attempted_subjects_def)
  next
    case (record_rejected pa' evf ms pb ex)
    from record_rejected(1) assms(2) have pa: "pa' = pa" by simp
    from record_rejected(2) g0 pa
    have ms: "ms = []" and evf: "evf = [GetListCall ?q0 (Inr (Some p))]"
      by simp_all
    show ?thesis
    proof (rule result [of "dest_login_events inp (Inr pb) @
                            create_rejected_events inp ex @ [stopped]"])
      from run record_rejected(4,5) pa ms evf
      show "migrate e inp tr =
          Some (Finished, tr @ ?head @ dest_login_events inp (Inr pb) @
                 create_rejected_events inp ex @ [stopped])"
        by simp
    qed (simp_all add: attempted_subjects_def)
  next
    case (create_failed pa' evf ms pb stamp reply)
    from create_failed(1) assms(2) have pa: "pa' = pa" by simp
    from create_failed(2) g0 pa
    have ms: "ms = []" and evf: "evf = [GetListCall ?q0 (Inr (Some p))]"
      by simp_all
    from create_failed(4) have nc:
      "(case reply of Inr resp \<Rightarrow> uri resp \<noteq> [] | Inl ex \<Rightarrow> False) = False"
      by (cases reply) auto
    show ?thesis
    proof (rule result [of "dest_login_events inp (Inr pb) @
                            create_events inp (list_data inp pb stamp) reply @ [stopped]"])
      from run create_failed(5,6) pa ms evf
      show "migrate e inp tr =
          Some (Finished, tr @ ?head @ dest_login_events inp (Inr pb) @
                 create_events inp (list_data inp pb stamp) reply @ [stopped])"
        by simp
    qed (simp_all add: attempted_subjects_def nc)
  next
    case (no_members pa' evf pb stamp resp)
    from no_members(1) assms(2) have pa: "pa' = pa" by simp
    from no_members(2) g0 pa
    have evf: "evf = [GetListCall ?q0 (Inr (Some p))]"
      by simp
    show ?thesis
    proof (rule result [of "dest_login_events inp (Inr pb) @
                            create_events inp (list_data inp pb stamp) (Inr resp) @
                            [nothing_to_add]"])
      from run no_members(5,6) pa evf
      show "migrate e inp tr =
          Some (Finished, tr @ ?head @ dest_login_events inp (Inr pb) @
                 create_events inp (list_data inp pb stamp) (Inr resp) @ [nothing_to_add])"
        by simp
    qed (simp_all add: attempted_subjects_def no_members(4))
  next
    case (added pa' evf ms pb stamp resp eva s f)
    from added(1) assms(2) have pa: "pa' = pa" by simp
    from added(2) g0 pa have "ms = []" by simp
    with added(4) show ?thesis by simp
  qed
qed

theorem empty_source_list_run_witness:
  "required_filled form \<and>
   login empty_list_world ([] @ source_login_open form)
     (source_handle form) (source_password form) = Inr alice \<and>
   get_list empty_list_world ([] @ source_login_events form (Inr alice) @ [fetch_open form])
     \<lparr>q_list = source_list_uri form, q_limit = 100, q_cursor = None\<rparr> =
     Inr (Some \<lparr>items = [], cursor = None\<rparr>) \<and>
   items \<lparr>items = [], cursor = None\<rparr> = [] \<and>
   migrate empty_list_world form [] = Some (Finished, empty_list_trace) \<and>
   list_created empty_list_trace \<and>
   last empty_list_trace = nothing_to_add \<and>
   StWrite ''Found 0 members in the source list.'' \<in> set empty_list_trace \<and>
   bars_opened empty_list_trace = [] \<and> attempted_subjects empty_list_trace = []"
proof -
  have h1: "required_filled form"
    by (simp add: required_filled_def)
  have h2: "login empty_list_world ([] @ source_login_open form)
     (source_handle form) (source_password form) = Inr alice"
    by simp
  have h3: "get_list empty_list_world
     ([] @ source_login_events form (Inr alice) @ [fetch_open form])
     \<lparr>q_list = source_list_uri form, q_limit = 100, q_cursor = None\<rparr> =
     Inr (Some \<lparr>items = [], cursor = None\<rparr>)"
    by simp
  have h4: "items \<lparr>items = [], cursor = None\<rparr> = []"
    by simp
  have c: "list_created empty_list_trace"
    by (simp add: empty_list_trace_def list_created_def create_open_def nothing_to_add_def
        AppBskyGraphList_def)
  from empty_source_list_run [OF h1 h2 h3 h4] obtain ev where
    "migrate empty_list_world form [] = Some (Finished, [] @ ev)"
    and "StWrite ''Found 0 members in the source list.'' \<in> set ev"
    and "bars_opened ev = []" and "attempted_subjects ev = []"
    and "list_created ev \<longrightarrow> last ev = nothing_to_add \<and>
           (\<exists>pb. login_replies ev = [Inr alice, Inr pb])"
    by blast
  with empty_list_run c h1 h2 h3 h4 show ?thesis by simp
qed

end
